theory Spec2Isabelle
  imports Complex_Main
begin

section \<open>Data model\<close>

text \<open>
  The script \<^verbatim>\<open>predict_mobile_lstm.py\<close> runs pretrained classifiers over feature
  arrays and fuses their outputs. Its arithmetic is modelled over the real numbers:
  the rounding, overflow and not-a-number values of machine floats are outside the
  model, so the theorems speak of which values are combined and how, of shapes, checks
  and their order, and not of the last bits of a result. Exceptions are values of a sum
  type; calls into the framework and the lines printed with computed values are
  recorded in an event log, so that the order of checks and inference is visible.
  Purely informational prints (\<^verbatim>\<open>"Load model ..."\<close>) are left out of the log.
\<close>

datatype error = ValueError string | IndexError | KeyError

text \<open>A feature array of any rank: only its shape is inspected by the script.\<close>

record ndarray =
  nd_shape :: "nat list"
  nd_data :: "real list"

text \<open>A two-dimensional array of scores, shape \<open>(length rows, ncols)\<close>.\<close>

record array2 =
  ncols :: nat
  rows :: "real list list"

definition nrows :: "array2 \<Rightarrow> nat" where
  "nrows A = length (rows A)"

text \<open>
  Modelled from the spec: the module \<^verbatim>\<open>datagenerator\<close> (classes \<^verbatim>\<open>VideoClasses\<close> and
  \<^verbatim>\<open>FeaturesGenerator\<close>) is not among the sources. The class table has one row per
  class, addressed by the class index \<open>0, 1, ...\<close>, with a short code and a detail
  string; the generator exposes the number of detected samples and the label column
  of its sample table.
\<close>

record class_row =
  sClass :: string
  sDetail :: string

record video_classes =
  liClasses :: "string list"
  dfClass :: "class_row list"

record features_generator =
  nSamples :: nat
  sLabel :: "string list"

text \<open>
  A loaded network: \<open>km_input_shape\<close> starts with the batch dimension, unknown
  dimensions are \<open>None\<close>; the two inference entry points are functions of their input.
\<close>

record keras_model =
  km_name :: string
  km_input_shape :: "nat option list"
  km_predict :: "ndarray \<Rightarrow> real list list"
  km_predict_generator :: "features_generator \<Rightarrow> array2"

text \<open>What the script reads from outside: model files, feature directories, the class file.\<close>

record env =
  load_model :: "string \<Rightarrow> keras_model"
  new_FeaturesGenerator ::
    "string \<Rightarrow> nat \<Rightarrow> nat option list \<Rightarrow> string list \<Rightarrow> features_generator"
  new_VideoClasses :: "string \<Rightarrow> video_classes"

datatype event =
    Infer string ndarray
  | InferGenerator string string
  | PrintTop nat nat string real
  | PrintAcc string real

type_synonym 'a run = "event list \<times> (error + 'a)"

definition ret :: "'a \<Rightarrow> 'a run" where
  "ret x = ([], Inr x)"

definition raise :: "error \<Rightarrow> 'a run" where
  "raise e = ([], Inl e)"

definition emit :: "event \<Rightarrow> unit run" where
  "emit ev = ([ev], Inr ())"

definition lift :: "error + 'a \<Rightarrow> 'a run" where
  "lift r = ([], r)"

definition bind :: "'a run \<Rightarrow> ('a \<Rightarrow> 'b run) \<Rightarrow> 'b run" where
  "bind m f =
     (case m of
        (l, Inl e) \<Rightarrow> (l, Inl e)
      | (l, Inr x) \<Rightarrow> (case f x of (l', r) \<Rightarrow> (l @ l', r)))"

section \<open>Array operations used by the script\<close>

text \<open>Indexing with a non-negative index.\<close>

definition getitem :: "'a list \<Rightarrow> nat \<Rightarrow> error + 'a" where
  "getitem xs i = (if i < length xs then Inr (xs ! i) else Inl IndexError)"

text \<open>Indexing an array with an array of indices.\<close>

definition take_indices :: "'a list \<Rightarrow> nat list \<Rightarrow> error + 'a list" where
  "take_indices xs idx =
     (if list_all (\<lambda>i. i < length xs) idx then Inr (map (\<lambda>i. xs ! i) idx)
      else Inl IndexError)"

text \<open>The slice \<^verbatim>\<open>xs[s:]\<close> for any integer \<open>s\<close>.\<close>

definition slice_from :: "'a list \<Rightarrow> int \<Rightarrow> 'a list" where
  "slice_from xs s =
     (let n = int (length xs);
          s' = (if s < 0 then max 0 (s + n) else min s n)
      in drop (nat s') xs)"

definition expand_dims0 :: "ndarray \<Rightarrow> ndarray" where
  "expand_dims0 a = a\<lparr>nd_shape := 1 # nd_shape a\<rparr>"

text \<open>
  \<^verbatim>\<open>argsort\<close> returns a permutation of the indices that sorts the values ascending.
  The default sorting kind is not stable, so which permutation is returned among
  equal values is not fixed; \<open>predict\<close> takes the routine as a parameter that
  satisfies \<open>is_argsort\<close>. \<open>argsort\<close> is one such routine.
\<close>

definition is_argsort :: "nat list \<Rightarrow> real list \<Rightarrow> bool" where
  "is_argsort p xs \<longleftrightarrow>
     set p = {0..<length xs} \<and> length p = length xs \<and> sorted (map (\<lambda>i. xs ! i) p)"

definition argsort :: "real list \<Rightarrow> nat list" where
  "argsort xs = sort_key (\<lambda>i. xs ! i) [0..<length xs]"

text \<open>\<^verbatim>\<open>argmax\<close>: the index of the first occurrence of the maximum.\<close>

fun argmax_aux :: "real list \<Rightarrow> nat \<Rightarrow> nat \<Rightarrow> real \<Rightarrow> nat" where
  "argmax_aux [] i bi bv = bi"
| "argmax_aux (x # xs) i bi bv =
     (if bv < x then argmax_aux xs (Suc i) i x else argmax_aux xs (Suc i) bi bv)"

definition argmax_row :: "real list \<Rightarrow> nat" where
  "argmax_row r = argmax_aux (tl r) 1 0 (hd r)"

text \<open>\<^verbatim>\<open>A.argmax(axis=1)\<close>: fails when the reduced axis has length zero.\<close>

definition argmax_axis1 :: "array2 \<Rightarrow> error + nat list" where
  "argmax_axis1 A =
     (if ncols A = 0 then Inl (ValueError ''attempt to get argmax of an empty sequence'')
      else Inr (map argmax_row (rows A)))"

text \<open>
  \<^verbatim>\<open>A + B\<close> on two-dimensional arrays, with broadcasting: two lengths of a
  dimension are compatible when they are equal or one of them is 1. Otherwise the error
  message names the two shapes, each followed by a blank, as in
  \<^verbatim>\<open>operands could not be broadcast together with shapes (2,3) (2,4) \<close>.
\<close>

function string_of_nat :: "nat \<Rightarrow> string" where
  "string_of_nat n =
     (if n < 10 then [''0123456789'' ! n]
      else string_of_nat (n div 10) @ [''0123456789'' ! (n mod 10)])"
  by pat_completeness auto
termination
  by (relation "measure (\<lambda>n. n)") auto

declare string_of_nat.simps [simp del]

definition shape_string :: "array2 \<Rightarrow> string" where
  "shape_string A = ''('' @ string_of_nat (nrows A) @ '','' @ string_of_nat (ncols A) @ '')''"

definition bdim :: "nat \<Rightarrow> nat \<Rightarrow> nat option" where
  "bdim a b = (if a = b then Some a else if a = 1 then Some b else if b = 1 then Some a else None)"

definition bget :: "array2 \<Rightarrow> nat \<Rightarrow> nat \<Rightarrow> real" where
  "bget A i j = rows A ! (if nrows A = 1 then 0 else i) ! (if ncols A = 1 then 0 else j)"

definition np_add :: "array2 \<Rightarrow> array2 \<Rightarrow> error + array2" where
  "np_add A B =
     (case (bdim (nrows A) (nrows B), bdim (ncols A) (ncols B)) of
        (Some n, Some c) \<Rightarrow>
          Inr \<lparr>ncols = c,
               rows = map (\<lambda>i. map (\<lambda>j. bget A i j + bget B i j) [0..<c]) [0..<n]\<rparr>
      | _ \<Rightarrow>
          Inl (ValueError (''operands could not be broadcast together with shapes '' @
                 shape_string A @ '' '' @ shape_string B @ '' '')))"

text \<open>
  \<^verbatim>\<open>np.exp(S) / np.sum(np.exp(S), axis=1).reshape(-1,1)\<close>: every entry of a row is
  exponentiated and divided by the sum of the exponentials of that row.
\<close>

definition softmax_row :: "real list \<Rightarrow> real list" where
  "softmax_row r = map (\<lambda>x. exp x / sum_list (map exp r)) r"

definition softmax :: "array2 \<Rightarrow> array2" where
  "softmax S = \<lparr>ncols = ncols S, rows = map softmax_row (rows S)\<rparr>"

section \<open>Class table access and accuracy\<close>

text \<open>\<^verbatim>\<open>dfClass.sClass[k]\<close> and \<^verbatim>\<open>dfClass.sDetail[k]\<close>: a missing row is a \<open>KeyError\<close>.\<close>

definition class_field :: "(class_row \<Rightarrow> string) \<Rightarrow> video_classes \<Rightarrow> nat \<Rightarrow> error + string" where
  "class_field f oClasses k =
     (if k < length (dfClass oClasses) then Inr (f (dfClass oClasses ! k)) else Inl KeyError)"

text \<open>
  \<^verbatim>\<open>dfClass.loc[arPred, "sClass"]\<close>: the short codes of the predicted classes. A
  predicted index without a row in the table is a \<open>KeyError\<close> (older versions of the
  table library raise it only when no index has a row, and fill in missing values
  otherwise).
\<close>

definition loc_sClass :: "video_classes \<Rightarrow> nat list \<Rightarrow> error + string list" where
  "loc_sClass oClasses arPred =
     (if list_all (\<lambda>k. k < length (dfClass oClasses)) arPred
      then Inr (map (\<lambda>k. sClass (dfClass oClasses ! k)) arPred)
      else Inl KeyError)"

text \<open>Comparing a list with a column: elementwise, and an error when the lengths differ.\<close>

definition series_eq :: "string list \<Rightarrow> string list \<Rightarrow> error + bool list" where
  "series_eq li se =
     (if length li \<noteq> length se then Inl (ValueError ''Lengths must match to compare'')
      else Inr (map (\<lambda>(a, b). a = b) (zip li se)))"

text \<open>
  The mean of a column of truth values: the share of true entries. (Of an empty column
  it is not a number; the script reaches it with at least one sample only, see the
  checks of \<open>predict_generator\<close>.)
\<close>

definition np_mean :: "bool list \<Rightarrow> real" where
  "np_mean bs = real (length (filter (\<lambda>b. b) bs)) / real (length bs)"

text \<open>\<^verbatim>\<open>np.mean(liLabels == oClasses.dfClass.loc[arPred, "sClass"])\<close>\<close>

definition accuracy :: "string list \<Rightarrow> video_classes \<Rightarrow> nat list \<Rightarrow> error + real" where
  "accuracy liLabels oClasses arPred =
     (case loc_sClass oClasses arPred of
        Inl e \<Rightarrow> Inl e
      | Inr se \<Rightarrow> (case series_eq liLabels se of Inl e \<Rightarrow> Inl e | Inr bs \<Rightarrow> Inr (np_mean bs)))"

section \<open>predict\<close>

text \<open>
  \<^verbatim>\<open>dfClass.sClass[arTopLabels[i]] + " " + dfClass.sDetail[arTopLabels[i]]\<close>: the label is
  read first, then the two columns of the class table.
\<close>

definition class_label :: "video_classes \<Rightarrow> nat list \<Rightarrow> nat \<Rightarrow> error + string" where
  "class_label oClasses arTopLabels i =
     (case getitem arTopLabels i of
        Inl e \<Rightarrow> Inl e
      | Inr k \<Rightarrow>
          (case class_field sClass oClasses k of
             Inl e \<Rightarrow> Inl e
           | Inr c \<Rightarrow>
               (case class_field sDetail oClasses k of
                  Inl e \<Rightarrow> Inl e
                | Inr d \<Rightarrow> Inr (c @ '' '' @ d))))"

text \<open>The loop \<^verbatim>\<open>for i in range(nTop)\<close> that prints the most probable labels.\<close>

fun top_loop :: "video_classes \<Rightarrow> nat list \<Rightarrow> real list \<Rightarrow> nat list \<Rightarrow> unit run" where
  "top_loop oClasses arTopLabels arTopProbas [] = ret ()"
| "top_loop oClasses arTopLabels arTopProbas (i # is) =
     bind (lift (class_label oClasses arTopLabels i)) (\<lambda>sClass.
     bind (lift (getitem arTopLabels i)) (\<lambda>k.
     bind (lift (getitem arTopProbas i)) (\<lambda>p.
     bind (emit (PrintTop (i + 1) k sClass (p * 100))) (\<lambda>_.
     top_loop oClasses arTopLabels arTopProbas is))))"

text \<open>
  \<open>predict\<close>: the shape check, the inference call on the array with a batch dimension,
  the \<open>nTop\<close> most probable labels in descending order (\<^verbatim>\<open>argsort()[-nTop:][::-1]\<close>),
  their printing, and the returned tuple of the best label, its name and its
  probability. \<open>srt\<close> is the sorting routine behind \<^verbatim>\<open>argsort\<close>; \<open>nTop\<close> is any integer.
\<close>

definition predict ::
  "(real list \<Rightarrow> nat list) \<Rightarrow> ndarray \<Rightarrow> keras_model \<Rightarrow> video_classes \<Rightarrow> int
     \<Rightarrow> (nat \<times> string \<times> real) run" where
  "predict srt arFeatures keModel oClasses nTop =
     (if drop 1 (km_input_shape keModel) \<noteq> map Some (nd_shape arFeatures)
      then raise (ValueError ''Incorrect shapes'')
      else
        let arX = expand_dims0 arFeatures in
        bind (emit (Infer (km_name keModel) arX)) (\<lambda>_.
        bind (lift (getitem (km_predict keModel arX) 0)) (\<lambda>arProbas.
        let arTopLabels = rev (slice_from (srt arProbas) (- nTop)) in
        bind (lift (take_indices arProbas arTopLabels)) (\<lambda>arTopProbas.
        bind (top_loop oClasses arTopLabels arTopProbas [0..<nat nTop]) (\<lambda>_.
        bind (lift (class_label oClasses arTopLabels 0)) (\<lambda>sClass.
        bind (lift (getitem arTopLabels 0)) (\<lambda>k.
        bind (lift (getitem arTopProbas 0)) (\<lambda>p.
        ret (k, sClass, p)))))))))"

section \<open>predict\_generator\<close>

text \<open>
  \<open>predict_generator\<close>: load the model, build the generator on the feature directory,
  stop when it holds no sample, run the model on it, stop when the number of predictions
  is not the number of samples, and return accuracy, predictions, probabilities and
  ground-truth labels.
\<close>

definition predict_generator ::
  "env \<Rightarrow> string \<Rightarrow> string \<Rightarrow> video_classes \<Rightarrow> nat
     \<Rightarrow> (real \<times> nat list \<times> array2 \<times> string list) run" where
  "predict_generator ev sFeatureDir sModelPath oClasses nBatchSize =
     (let keModel = load_model ev sModelPath;
          genFeatures = new_FeaturesGenerator ev sFeatureDir nBatchSize
                          (drop 1 (km_input_shape keModel)) (liClasses oClasses)
      in if nSamples genFeatures = 0
         then raise (ValueError ''No feature files detected, prediction stopped'')
         else
           bind (emit (InferGenerator sModelPath sFeatureDir)) (\<lambda>_.
           let arProba = km_predict_generator keModel genFeatures in
           if nrows arProba \<noteq> nSamples genFeatures
           then raise (ValueError ''Unexpected number of predictions'')
           else
             bind (lift (argmax_axis1 arProba)) (\<lambda>arPred.
             let liLabels = sLabel genFeatures in
             bind (lift (accuracy liLabels oClasses arPred)) (\<lambda>fAcc.
             ret (fAcc, arPred, arProba, liLabels)))))"

section \<open>main\<close>

text \<open>The paths of main, with \<^verbatim>\<open>%03d\<close> of \<open>nClasses = 21\<close> filled in.\<close>

definition sClassFile :: string where
  "sClassFile = ''data-set/01-ledasila/021/class.csv''"

definition sImageFeatureDir :: string where
  "sImageFeatureDir = ''data-temp/01-ledasila/021/image-mobilenet/val''"

definition sOflowFeatureDir :: string where
  "sOflowFeatureDir = ''data-temp/01-ledasila/021/oflow-mobilenet/val''"

definition sModelImageBest :: string where
  "sModelImageBest = ''model/20180620-1653-ledasila021-image-mobile-lstm-best.h5''"

definition sModelImageLast :: string where
  "sModelImageLast = ''model/20180620-1653-ledasila021-image-mobile-lstm-last.h5''"

definition sModelOflowBest :: string where
  "sModelOflowBest = ''model/20180620-1701-ledasila021-oflow-mobile-lstm-best.h5''"

definition sModelOflowLast :: string where
  "sModelOflowLast = ''model/20180620-1701-ledasila021-oflow-mobile-lstm-last.h5''"

text \<open>The values one ensemble computes: summed scores, probabilities, predictions, accuracy.\<close>

record fusion =
  arSoftmax :: array2
  arProba :: array2
  arPred :: "nat list"
  fAcc :: real

text \<open>
  The three lines that follow each sum in main: softmax of the summed scores, row-wise
  argmax, and the accuracy against the labels of the image stream.
\<close>

definition fuse :: "array2 \<Rightarrow> string list \<Rightarrow> video_classes \<Rightarrow> error + fusion" where
  "fuse arSoftmax' liLabels oClasses =
     (let arProba' = softmax arSoftmax' in
      case argmax_axis1 arProba' of
        Inl e \<Rightarrow> Inl e
      | Inr arPred' \<Rightarrow>
          (case accuracy liLabels oClasses arPred' of
             Inl e \<Rightarrow> Inl e
           | Inr fAcc' \<Rightarrow>
               Inr \<lparr>arSoftmax = arSoftmax', arProba = arProba', arPred = arPred', fAcc = fAcc'\<rparr>))"

text \<open>
  main returns nothing; the model returns the values of the three ensembles (last
  models, optical-flow models, all four models) next to the log of what was printed.
\<close>

definition main :: "env \<Rightarrow> (fusion \<times> fusion \<times> fusion) run" where
  "main ev =
     (let oClasses = new_VideoClasses ev sClassFile in
      bind (predict_generator ev sImageFeatureDir sModelImageBest oClasses 16)
        (\<lambda>(fAcc_image_best, _, arProba_image_best, liLabels_image_best).
      bind (emit (PrintAcc ''Image best model accuracy'' (fAcc_image_best * 100))) (\<lambda>_.
      bind (predict_generator ev sImageFeatureDir sModelImageLast oClasses 16)
        (\<lambda>(fAcc_image_last, _, arProba_image_last, liLabels_image_last).
      bind (emit (PrintAcc ''Image last model accuracy'' (fAcc_image_last * 100))) (\<lambda>_.
      bind (predict_generator ev sOflowFeatureDir sModelOflowBest oClasses 16)
        (\<lambda>(fAcc_oflow_best, _, arProba_oflow_best, liLabels_oflow_best).
      bind (emit (PrintAcc ''Optical flow best model accuracy'' (fAcc_oflow_best * 100))) (\<lambda>_.
      bind (predict_generator ev sOflowFeatureDir sModelOflowLast oClasses 16)
        (\<lambda>(fAcc_oflow_last, _, arProba_oflow_last, liLabels_oflow_last).
      bind (emit (PrintAcc ''Optical flow last model accuracy'' (fAcc_oflow_last * 100))) (\<lambda>_.
      if liLabels_image_best \<noteq> liLabels_oflow_best
      then raise (ValueError ''The rgb and flwo labels do not match'')
      else
        bind (lift (np_add arProba_image_last arProba_oflow_last)) (\<lambda>s1.
        bind (lift (fuse s1 liLabels_image_best oClasses)) (\<lambda>f1.
        bind (emit (PrintAcc ''Last image & last optical flow model combined accuracy''
                      (fAcc f1 * 100))) (\<lambda>_.
        bind (lift (np_add arProba_oflow_best arProba_oflow_last)) (\<lambda>s2.
        bind (lift (fuse s2 liLabels_image_best oClasses)) (\<lambda>f2.
        bind (emit (PrintAcc ''Combined 2 optical flow model accuracy'' (fAcc f2 * 100))) (\<lambda>_.
        bind (lift (np_add arProba_image_best arProba_image_last)) (\<lambda>s3a.
        bind (lift (np_add s3a arProba_oflow_best)) (\<lambda>s3b.
        bind (lift (np_add s3b arProba_oflow_last)) (\<lambda>s3.
        bind (lift (fuse s3 liLabels_image_best oClasses)) (\<lambda>f3.
        bind (emit (PrintAcc ''Combined 4-model accuracy'' (fAcc f3 * 100))) (\<lambda>_.
        ret (f1, f2, f3)))))))))))))))))))))"

section \<open>Notions used in the statements\<close>

text \<open>The class table main loads, the generator a call of \<open>predict_generator\<close> builds, and
  the score array its model returns on it.\<close>

definition generator_of :: "env \<Rightarrow> string \<Rightarrow> string \<Rightarrow> video_classes \<Rightarrow> nat \<Rightarrow> features_generator" where
  "generator_of ev sFeatureDir sModelPath oClasses nBatchSize =
     new_FeaturesGenerator ev sFeatureDir nBatchSize
       (drop 1 (km_input_shape (load_model ev sModelPath))) (liClasses oClasses)"

definition model_output :: "env \<Rightarrow> string \<Rightarrow> string \<Rightarrow> video_classes \<Rightarrow> nat \<Rightarrow> array2" where
  "model_output ev sFeatureDir sModelPath oClasses nBatchSize =
     km_predict_generator (load_model ev sModelPath)
       (generator_of ev sFeatureDir sModelPath oClasses nBatchSize)"

definition cls :: "env \<Rightarrow> video_classes" where
  "cls ev = new_VideoClasses ev sClassFile"

text \<open>
  The recipe in the words of the specification, written without the operations of the
  model. The combined scores are the elementwise sum of the selected per-model arrays:
  the sum has the common shape of the arrays (along each dimension every array has the
  length of the sum or length 1, and some array has the length of the sum), it is
  rectangular, and its entry \<open>(i, j)\<close> is the sum of the entries \<open>(i, j)\<close> of the arrays,
  where an array of length 1 along a dimension is read at index 0 of it. For arrays of
  one shape this is the plain entry-by-entry sum. The combined probability is the
  softmax of that sum, the combined prediction of a sample is the first index of a
  largest entry of its probability row, and the accuracy is the mean over the samples
  of the indicator that the short code of the predicted class is the label of the
  sample.
\<close>

definition spec_common_length :: "nat \<Rightarrow> nat list \<Rightarrow> bool" where
  "spec_common_length n ds \<longleftrightarrow> n \<in> set ds \<and> list_all (\<lambda>d. d = n \<or> d = 1) ds"

definition spec_elementwise_sum :: "array2 \<Rightarrow> array2 list \<Rightarrow> bool" where
  "spec_elementwise_sum S As \<longleftrightarrow>
     spec_common_length (length (rows S)) (map (\<lambda>A. length (rows A)) As) \<and>
     spec_common_length (ncols S) (map ncols As) \<and>
     list_all (\<lambda>r. length r = ncols S) (rows S) \<and>
     (\<forall>i<length (rows S). \<forall>j<ncols S.
        rows S ! i ! j =
          sum_list (map (\<lambda>A. rows A ! (if length (rows A) = 1 then 0 else i)
                                   ! (if ncols A = 1 then 0 else j)) As))"





section \<open>An example environment\<close>

text \<open>Two samples, two classes and four models; used to instantiate the theorems.\<close>

definition ex_classes :: video_classes where
  "ex_classes = \<lparr>liClasses = [''A'', ''B''],
     dfClass = [\<lparr>sClass = ''A'', sDetail = ''alpha''\<rparr>, \<lparr>sClass = ''B'', sDetail = ''beta''\<rparr>]\<rparr>"

definition ex_generator :: features_generator where
  "ex_generator = \<lparr>nSamples = 2, sLabel = [''A'', ''B'']\<rparr>"

definition ex_model :: "string \<Rightarrow> real list list \<Rightarrow> keras_model" where
  "ex_model nm out =
     \<lparr>km_name = nm, km_input_shape = [None, Some 20, Some 1024],
      km_predict = (\<lambda>_. take 1 out),
      km_predict_generator = (\<lambda>_. \<lparr>ncols = 2, rows = out\<rparr>)\<rparr>"

definition ex_env :: env where
  "ex_env =
     \<lparr>load_model = (\<lambda>p.
        if p = sModelImageBest then ex_model ''image-best'' [[0.9, 0.1], [0.2, 0.8]]
        else if p = sModelImageLast then ex_model ''image-last'' [[0.6, 0.4], [0.7, 0.3]]
        else if p = sModelOflowBest then ex_model ''oflow-best'' [[0.8, 0.2], [0.4, 0.6]]
        else ex_model ''oflow-last'' [[0.3, 0.7], [0.1, 0.9]]),
      new_FeaturesGenerator = (\<lambda>_ _ _ _. ex_generator),
      new_VideoClasses = (\<lambda>_. ex_classes)\<rparr>"

definition ex_fusion :: "real list list \<Rightarrow> nat list \<Rightarrow> real \<Rightarrow> fusion" where
  "ex_fusion S pr a =
     \<lparr>arSoftmax = \<lparr>ncols = 2, rows = S\<rparr>, arProba = softmax \<lparr>ncols = 2, rows = S\<rparr>,
      arPred = pr, fAcc = a\<rparr>"

text \<open>Variants of the example: a directory without feature files, and a generator that
  reports three samples while the models return two rows.\<close>

definition ex_env_empty :: env where
  "ex_env_empty = ex_env\<lparr>new_FeaturesGenerator := (\<lambda>_ _ _ _. \<lparr>nSamples = 0, sLabel = []\<rparr>)\<rparr>"

definition ex_env_three :: env where
  "ex_env_three =
     ex_env\<lparr>new_FeaturesGenerator := (\<lambda>_ _ _ _. \<lparr>nSamples = 3, sLabel = [''A'', ''B'', ''A'']\<rparr>)\<rparr>"

text \<open>A variant of the example in which the two feature directories list their samples
  in different orders.\<close>

definition ex_env_mismatch :: env where
  "ex_env_mismatch =
     ex_env\<lparr>new_FeaturesGenerator := (\<lambda>d _ _ _.
        if d = sImageFeatureDir then ex_generator
        else \<lparr>nSamples = 2, sLabel = [''B'', ''A'']\<rparr>)\<rparr>"

text \<open>A class table with a single row, and the example with the same scores coming from
  differently named networks with another input shape.\<close>

definition ex_classes1 :: video_classes where
  "ex_classes1 = \<lparr>liClasses = [''A''], dfClass = [\<lparr>sClass = ''A'', sDetail = ''alpha''\<rparr>]\<rparr>"

definition ex_env_other :: env where
  "ex_env_other =
     ex_env\<lparr>load_model := (\<lambda>p.
        (load_model ex_env p)\<lparr>km_name := ''other'', km_input_shape := [None, Some 40, Some 2048]\<rparr>)\<rparr>"

text \<open>Small inputs for \<open>predict\<close>: a feature array of shape \<open>(2, 3)\<close>, a network with two
  classes and one with three, and a class table with three rows.\<close>

definition ex_features :: ndarray where
  "ex_features = \<lparr>nd_shape = [2, 3], nd_data = [1, 2, 3, 4, 5, 6]\<rparr>"

definition ex_features_bad :: ndarray where
  "ex_features_bad = \<lparr>nd_shape = [3, 2], nd_data = [1, 2, 3, 4, 5, 6]\<rparr>"

definition ex_net2 :: keras_model where
  "ex_net2 =
     \<lparr>km_name = ''net2'', km_input_shape = [None, Some 2, Some 3],
      km_predict = (\<lambda>_. [[0.9, 0.1]]),
      km_predict_generator = (\<lambda>_. \<lparr>ncols = 2, rows = []\<rparr>)\<rparr>"

definition ex_net3 :: keras_model where
  "ex_net3 =
     \<lparr>km_name = ''net3'', km_input_shape = [None, Some 2, Some 3],
      km_predict = (\<lambda>_. [[0.2, 0.7, 0.1]]),
      km_predict_generator = (\<lambda>_. \<lparr>ncols = 3, rows = []\<rparr>)\<rparr>"

definition ex_classes3 :: video_classes where
  "ex_classes3 = \<lparr>liClasses = [''A'', ''B'', ''C''],
     dfClass = [\<lparr>sClass = ''A'', sDetail = ''alpha''\<rparr>, \<lparr>sClass = ''B'', sDetail = ''beta''\<rparr>,
                \<lparr>sClass = ''C'', sDetail = ''gamma''\<rparr>]\<rparr>"

section \<open>Basic facts\<close>

lemma bind_ret [simp]: "bind (ret x) f = f x"
  by (simp add: bind_def ret_def split: prod.splits)

lemma bind_raise [simp]: "bind (raise e) f = raise e"
  by (simp add: bind_def raise_def)

lemma bind_lift_Inl [simp]: "bind (lift (Inl e)) f = raise e"
  by (simp add: bind_def lift_def raise_def)

lemma bind_lift_Inr [simp]: "bind (lift (Inr x)) f = f x"
  by (simp add: bind_def lift_def split: prod.splits)

lemma bind_emit: "bind (emit ev) f = (ev # fst (f ()), snd (f ()))"
  by (simp add: bind_def emit_def split: prod.splits)

lemma fst_bind: "fst (bind m f) = fst m @ (case snd m of Inl e \<Rightarrow> [] | Inr x \<Rightarrow> fst (f x))"
  by (simp add: bind_def split: prod.splits sum.splits)

lemma snd_bind: "snd (bind m f) = (case snd m of Inl e \<Rightarrow> Inl e | Inr x \<Rightarrow> snd (f x))"
  by (simp add: bind_def split: prod.splits sum.splits)

lemma bind_eq_Inr:
  "bind m f = (l, Inr y) \<longleftrightarrow> (\<exists>l1 x l2. m = (l1, Inr x) \<and> f x = (l2, Inr y) \<and> l = l1 @ l2)"
  by (cases m) (auto simp: bind_def split: prod.splits sum.splits)

lemma argmax_aux_mono:
  assumes "\<And>a b. f a < f b \<longleftrightarrow> a < (b::real)"
  shows "argmax_aux (map f xs) i bi (f bv) = argmax_aux xs i bi bv"
  using assms by (induction xs arbitrary: i bi bv) auto



lemma sum_exp_nonneg: "0 \<le> sum_list (map exp (r::real list))"
  by (induction r) simp_all

lemma sum_exp_pos: "r \<noteq> [] \<Longrightarrow> 0 < sum_list (map exp (r::real list))"
  by (cases r) (simp_all add: add_pos_nonneg sum_exp_nonneg)

lemma argmax_row_softmax: "argmax_row (softmax_row r) = argmax_row r"
proof (cases r)
  case Nil
  then show ?thesis by (simp add: softmax_row_def)
next
  case (Cons x xs)
  define s where "s = sum_list (map exp r)"
  have s: "0 < s" unfolding s_def using Cons by (intro sum_exp_pos) simp
  have mono: "\<And>a b. exp a / s < exp b / s \<longleftrightarrow> a < (b::real)"
    using s by (simp add: divide_less_cancel)
  have "argmax_row (softmax_row r) = argmax_aux (map (\<lambda>x. exp x / s) xs) 1 0 (exp x / s)"
    by (simp add: softmax_row_def argmax_row_def Cons s_def)
  also have "\<dots> = argmax_aux xs 1 0 x"
    by (rule argmax_aux_mono[where f="\<lambda>x. exp x / s"]) (rule mono)
  finally show ?thesis by (simp add: argmax_row_def Cons)
qed

lemma argmax_axis1_softmax: "argmax_axis1 (softmax S) = argmax_axis1 S"
  by (simp add: argmax_axis1_def softmax_def argmax_row_softmax)

lemma emit_eq [simp]: "emit ev = (l, r) \<longleftrightarrow> l = [ev] \<and> r = Inr ()"
  by (auto simp: emit_def)

lemma lift_eq [simp]: "lift r = (l, r') \<longleftrightarrow> l = [] \<and> r = r'"
  by (auto simp: lift_def)

lemma ret_eq [simp]: "ret x = (l, r) \<longleftrightarrow> l = [] \<and> r = Inr x"
  by (auto simp: ret_def)

lemma raise_eq [simp]: "raise e = (l, r) \<longleftrightarrow> l = [] \<and> r = Inl e"
  by (auto simp: raise_def)

lemma bind_eq_Inl:
  "bind m f = (l, Inl e) \<longleftrightarrow>
     m = (l, Inl e) \<or> (\<exists>l1 x l2. m = (l1, Inr x) \<and> f x = (l2, Inl e) \<and> l = l1 @ l2)"
  by (cases m) (auto simp: bind_def split: prod.splits sum.splits)

lemma accuracy_Inr:
  "accuracy L c pr = Inr a \<longleftrightarrow>
     list_all (\<lambda>k. k < length (dfClass c)) pr \<and> length L = length pr \<and>
     a = np_mean (map (\<lambda>(x, y). x = y) (zip L (map (\<lambda>k. sClass (dfClass c ! k)) pr)))"
  by (auto simp: accuracy_def loc_sClass_def series_eq_def split: sum.splits)

lemma predict_generator_Inr:
  "predict_generator ev d p c b = (l, Inr (a, pr, P, L)) \<longleftrightarrow>
     nSamples (generator_of ev d p c b) \<noteq> 0 \<and>
     P = model_output ev d p c b \<and>
     nrows P = nSamples (generator_of ev d p c b) \<and>
     ncols P \<noteq> 0 \<and>
     pr = map argmax_row (rows P) \<and>
     L = sLabel (generator_of ev d p c b) \<and>
     accuracy L c pr = Inr a \<and>
     l = [InferGenerator p d]"
  unfolding predict_generator_def generator_of_def model_output_def Let_def
  by (auto simp: bind_eq_Inr argmax_axis1_def split: if_splits)

lemma predict_generator_log:
  "e \<in> set (fst (predict_generator ev d p c b)) \<Longrightarrow> e = InferGenerator p d"
  unfolding predict_generator_def Let_def
  by (auto simp: fst_bind emit_def raise_def lift_def ret_def split: if_splits sum.splits)

lemma fuse_Inr:
  "fuse S L c = Inr f \<longleftrightarrow>
     ncols S \<noteq> 0 \<and> arSoftmax f = S \<and> arProba f = softmax S \<and>
     arPred f = map argmax_row (rows (softmax S)) \<and>
     accuracy L c (arPred f) = Inr (fAcc f)"
  unfolding fuse_def Let_def
  by (cases f) (auto simp: argmax_axis1_def softmax_def split: sum.splits if_splits)

lemma main_Inr:
  assumes "main ev = (l, Inr (f1, f2, f3))"
  shows "nSamples (generator_of ev sImageFeatureDir sModelImageBest (cls ev) 16) \<noteq> 0"
    and "ncols (model_output ev sImageFeatureDir sModelImageBest (cls ev) 16) \<noteq> 0"
    and "ncols (model_output ev sImageFeatureDir sModelImageLast (cls ev) 16) \<noteq> 0"
    and "ncols (model_output ev sOflowFeatureDir sModelOflowBest (cls ev) 16) \<noteq> 0"
    and "ncols (model_output ev sOflowFeatureDir sModelOflowLast (cls ev) 16) \<noteq> 0"
    and "sLabel (generator_of ev sImageFeatureDir sModelImageBest (cls ev) 16) =
         sLabel (generator_of ev sOflowFeatureDir sModelOflowBest (cls ev) 16)"
    and "np_add (model_output ev sImageFeatureDir sModelImageLast (cls ev) 16)
            (model_output ev sOflowFeatureDir sModelOflowLast (cls ev) 16) = Inr (arSoftmax f1)"
    and "fuse (arSoftmax f1)
           (sLabel (generator_of ev sImageFeatureDir sModelImageBest (cls ev) 16)) (cls ev) = Inr f1"
    and "np_add (model_output ev sOflowFeatureDir sModelOflowBest (cls ev) 16)
            (model_output ev sOflowFeatureDir sModelOflowLast (cls ev) 16) = Inr (arSoftmax f2)"
    and "fuse (arSoftmax f2)
           (sLabel (generator_of ev sImageFeatureDir sModelImageBest (cls ev) 16)) (cls ev) = Inr f2"
    and "\<exists>s3a s3b.
         np_add (model_output ev sImageFeatureDir sModelImageBest (cls ev) 16)
            (model_output ev sImageFeatureDir sModelImageLast (cls ev) 16) = Inr s3a \<and>
         np_add s3a (model_output ev sOflowFeatureDir sModelOflowBest (cls ev) 16) = Inr s3b \<and>
         np_add s3b (model_output ev sOflowFeatureDir sModelOflowLast (cls ev) 16) = Inr (arSoftmax f3)"
    and "fuse (arSoftmax f3)
           (sLabel (generator_of ev sImageFeatureDir sModelImageBest (cls ev) 16)) (cls ev) = Inr f3"
  using assms unfolding main_def Let_def cls_def[symmetric]
  by (auto simp: bind_eq_Inr predict_generator_Inr fuse_Inr split: if_splits prod.splits)

section \<open>The example run\<close>

lemma bind_pair_Inr: "bind (l, Inr x) f = (case f x of (l', r) \<Rightarrow> (l @ l', r))"
  by (simp add: bind_def)

lemma bind_pair_Inl: "bind (l, Inl e) f = (l, Inl e)"
  by (simp add: bind_def)

lemma ex_paths:
  "sModelImageBest \<noteq> sModelImageLast" "sModelImageBest \<noteq> sModelOflowBest"
  "sModelImageBest \<noteq> sModelOflowLast" "sModelImageLast \<noteq> sModelOflowBest"
  "sModelImageLast \<noteq> sModelOflowLast" "sModelOflowBest \<noteq> sModelOflowLast"
  "sModelImageLast \<noteq> sModelImageBest" "sModelOflowBest \<noteq> sModelImageBest"
  "sModelOflowLast \<noteq> sModelImageBest" "sModelOflowBest \<noteq> sModelImageLast"
  "sModelOflowLast \<noteq> sModelImageLast" "sModelOflowLast \<noteq> sModelOflowBest"
  by (simp_all add: sModelImageBest_def sModelImageLast_def sModelOflowBest_def sModelOflowLast_def)

lemma ex_pg:
  "predict_generator ex_env sImageFeatureDir sModelImageBest ex_classes 16 =
     ([InferGenerator sModelImageBest sImageFeatureDir],
      Inr (1, [0, 1], \<lparr>ncols = 2, rows = [[0.9, 0.1], [0.2, 0.8]]\<rparr>, [''A'', ''B'']))"
  "predict_generator ex_env sImageFeatureDir sModelImageLast ex_classes 16 =
     ([InferGenerator sModelImageLast sImageFeatureDir],
      Inr (1/2, [0, 0], \<lparr>ncols = 2, rows = [[0.6, 0.4], [0.7, 0.3]]\<rparr>, [''A'', ''B'']))"
  "predict_generator ex_env sOflowFeatureDir sModelOflowBest ex_classes 16 =
     ([InferGenerator sModelOflowBest sOflowFeatureDir],
      Inr (1, [0, 1], \<lparr>ncols = 2, rows = [[0.8, 0.2], [0.4, 0.6]]\<rparr>, [''A'', ''B'']))"
  "predict_generator ex_env sOflowFeatureDir sModelOflowLast ex_classes 16 =
     ([InferGenerator sModelOflowLast sOflowFeatureDir],
      Inr (1/2, [1, 1], \<lparr>ncols = 2, rows = [[0.3, 0.7], [0.1, 0.9]]\<rparr>, [''A'', ''B'']))"
  by (simp_all add: predict_generator_Inr generator_of_def model_output_def ex_env_def ex_paths
      ex_model_def ex_generator_def ex_classes_def nrows_def argmax_row_def accuracy_Inr np_mean_def)

lemma fuse_eval:
  "fuse S L c =
     (if ncols S = 0 then Inl (ValueError ''attempt to get argmax of an empty sequence'')
      else case accuracy L c (map argmax_row (rows S)) of
             Inl e \<Rightarrow> Inl e
           | Inr a \<Rightarrow> Inr \<lparr>arSoftmax = S, arProba = softmax S,
                            arPred = map argmax_row (rows S), fAcc = a\<rparr>)"
  unfolding fuse_def Let_def argmax_axis1_softmax
  by (simp add: argmax_axis1_def softmax_def)

lemmas ex_eval =
  np_add_def bdim_def nrows_def bget_def upt_rec[of 0] upt_rec[of 1] upt_rec[of "Suc 0"]
  fuse_eval argmax_row_def accuracy_def loc_sClass_def series_eq_def np_mean_def
  bind_pair_Inr bind_pair_Inl emit_def lift_def ret_def raise_def

lemma ex_main:
  "main ex_env =
     ([InferGenerator sModelImageBest sImageFeatureDir, PrintAcc ''Image best model accuracy'' 100,
       InferGenerator sModelImageLast sImageFeatureDir, PrintAcc ''Image last model accuracy'' 50,
       InferGenerator sModelOflowBest sOflowFeatureDir, PrintAcc ''Optical flow best model accuracy'' 100,
       InferGenerator sModelOflowLast sOflowFeatureDir, PrintAcc ''Optical flow last model accuracy'' 50,
       PrintAcc ''Last image & last optical flow model combined accuracy'' 50,
       PrintAcc ''Combined 2 optical flow model accuracy'' 100,
       PrintAcc ''Combined 4-model accuracy'' 100],
      Inr (ex_fusion [[0.9, 1.1], [0.8, 1.2]] [1, 1] (1/2),
           ex_fusion [[1.1, 0.9], [0.5, 1.5]] [0, 1] 1,
           ex_fusion [[2.6, 1.4], [1.4, 2.6]] [0, 1] 1))"
proof -
  have c: "new_VideoClasses ex_env sClassFile = ex_classes"
    by (simp add: ex_env_def)
  have f: "fAcc (ex_fusion S pr a) = a" for S pr a
    by (simp add: ex_fusion_def)
  show ?thesis
    unfolding main_def Let_def c
    by (simp only: ex_pg) (simp add: ex_eval ex_fusion_def ex_classes_def)
qed

section \<open>Facts about sums\<close>


section \<open>The claims\<close>

lemma predict_generator_empty:
  "nSamples (generator_of ev d p c b) = 0 \<Longrightarrow>
   predict_generator ev d p c b =
     ([], Inl (ValueError ''No feature files detected, prediction stopped''))"
  by (simp add: predict_generator_def generator_of_def Let_def raise_def)

lemma predict_generator_log_nonempty:
  "fst (predict_generator ev d p c b) \<noteq> [] \<Longrightarrow> nSamples (generator_of ev d p c b) \<noteq> 0"
  by (rule ccontr) (simp add: predict_generator_empty)

lemma predict_generator_mismatch:
  "nSamples (generator_of ev d p c b) \<noteq> 0 \<Longrightarrow>
   nrows (model_output ev d p c b) \<noteq> nSamples (generator_of ev d p c b) \<Longrightarrow>
   predict_generator ev d p c b =
     ([InferGenerator p d], Inl (ValueError ''Unexpected number of predictions''))"
  by (simp add: predict_generator_def generator_of_def model_output_def Let_def raise_def
      bind_def emit_def)

text \<open>
  C5. When the feature generator detects no feature file, \<open>predict_generator\<close> raises
  its error and returns no result, and nothing has been sent to the model. Whenever the
  model was run on the generator, at least one feature file had been detected.
\<close>

theorem predict_generator_stops_without_files:
  "(nSamples (generator_of ev d p c b) = 0 \<longrightarrow>
      predict_generator ev d p c b =
        ([], Inl (ValueError ''No feature files detected, prediction stopped''))) \<and>
   (InferGenerator p d \<in> set (fst (predict_generator ev d p c b)) \<longrightarrow>
      1 \<le> nSamples (generator_of ev d p c b))"
proof (intro conjI impI)
  assume "nSamples (generator_of ev d p c b) = 0"
  then show "predict_generator ev d p c b =
        ([], Inl (ValueError ''No feature files detected, prediction stopped''))"
    by (rule predict_generator_empty)
next
  assume "InferGenerator p d \<in> set (fst (predict_generator ev d p c b))"
  then have "fst (predict_generator ev d p c b) \<noteq> []" by auto
  then have "nSamples (generator_of ev d p c b) \<noteq> 0" by (rule predict_generator_log_nonempty)
  then show "1 \<le> nSamples (generator_of ev d p c b)" by simp
qed

lemma ex_gen:
  "generator_of ex_env d p c b = ex_generator"
  "generator_of ex_env_empty d p c b = \<lparr>nSamples = 0, sLabel = []\<rparr>"
  "generator_of ex_env_three d p c b = \<lparr>nSamples = 3, sLabel = [''A'', ''B'', ''A'']\<rparr>"
  by (simp_all add: generator_of_def ex_env_def ex_env_empty_def ex_env_three_def)

theorem predict_generator_stops_without_files_witness:
  "predict_generator ex_env_empty sImageFeatureDir sModelImageBest ex_classes 16 =
     ([], Inl (ValueError ''No feature files detected, prediction stopped'')) \<and>
   1 \<le> nSamples (generator_of ex_env sImageFeatureDir sModelImageBest ex_classes 16)"
  using predict_generator_stops_without_files
          [of ex_env_empty sImageFeatureDir sModelImageBest ex_classes 16]
        predict_generator_stops_without_files
          [of ex_env sImageFeatureDir sModelImageBest ex_classes 16]
  by (simp add: ex_gen ex_pg)

text \<open>
  C6, as amended. When the number of rows of the predicted probability array differs
  from the number of detected samples, \<open>predict_generator\<close> raises an error (after a non-zero sample
  count, the error of the count check). The tuple it returns holds a prediction array of
  length \<open>nSamples\<close>, the model's probability array with \<open>nSamples\<close> rows and a label
  list of length \<open>nSamples\<close>; it does return whenever the counts agree, the array has a
  column, every predicted class has a row in the class table and the generator has one
  label per sample.
\<close>

theorem predict_generator_count_guard:
  "(nSamples (generator_of ev d p c b) \<noteq> 0 \<and>
    nrows (model_output ev d p c b) \<noteq> nSamples (generator_of ev d p c b) \<longrightarrow>
      predict_generator ev d p c b =
        ([InferGenerator p d], Inl (ValueError ''Unexpected number of predictions''))) \<and>
   (nrows (model_output ev d p c b) \<noteq> nSamples (generator_of ev d p c b) \<longrightarrow>
      (\<exists>e. snd (predict_generator ev d p c b) = Inl e)) \<and>
   (predict_generator ev d p c b = (l, Inr (a, pr, P, L)) \<longrightarrow>
      P = model_output ev d p c b \<and>
      length pr = nSamples (generator_of ev d p c b) \<and>
      nrows P = nSamples (generator_of ev d p c b) \<and>
      length L = nSamples (generator_of ev d p c b)) \<and>
   (nSamples (generator_of ev d p c b) \<noteq> 0 \<and>
    nrows (model_output ev d p c b) = nSamples (generator_of ev d p c b) \<and>
    ncols (model_output ev d p c b) \<noteq> 0 \<and>
    list_all (\<lambda>k. k < length (dfClass c)) (map argmax_row (rows (model_output ev d p c b))) \<and>
    length (sLabel (generator_of ev d p c b)) = nSamples (generator_of ev d p c b) \<longrightarrow>
      (\<exists>a'. predict_generator ev d p c b =
         ([InferGenerator p d],
          Inr (a', map argmax_row (rows (model_output ev d p c b)), model_output ev d p c b,
               sLabel (generator_of ev d p c b)))))"
proof -
  have a: "predict_generator ev d p c b =
        ([InferGenerator p d], Inl (ValueError ''Unexpected number of predictions''))"
    if "nSamples (generator_of ev d p c b) \<noteq> 0"
      and "nrows (model_output ev d p c b) \<noteq> nSamples (generator_of ev d p c b)"
    using that by (simp add: predict_generator_mismatch)
  have b: "\<exists>e. snd (predict_generator ev d p c b) = Inl e"
    if ne: "nrows (model_output ev d p c b) \<noteq> nSamples (generator_of ev d p c b)"
  proof (cases "nSamples (generator_of ev d p c b) = 0")
    case True
    then show ?thesis by (simp add: predict_generator_empty)
  next
    case False
    then show ?thesis using ne by (simp add: predict_generator_mismatch)
  qed
  have c: "P = model_output ev d p c b \<and>
      length pr = nSamples (generator_of ev d p c b) \<and>
      nrows P = nSamples (generator_of ev d p c b) \<and>
      length L = nSamples (generator_of ev d p c b)"
    if r: "predict_generator ev d p c b = (l, Inr (a, pr, P, L))"
  proof -
    from r have "accuracy L c pr = Inr a" by (auto simp: predict_generator_Inr)
    then have "length L = length pr" by (simp add: accuracy_Inr)
    with r show ?thesis by (auto simp: predict_generator_Inr nrows_def)
  qed
  have d: "\<exists>a'. predict_generator ev d p c b =
         ([InferGenerator p d],
          Inr (a', map argmax_row (rows (model_output ev d p c b)), model_output ev d p c b,
               sLabel (generator_of ev d p c b)))"
    if "nSamples (generator_of ev d p c b) \<noteq> 0"
      and "nrows (model_output ev d p c b) = nSamples (generator_of ev d p c b)"
      and "ncols (model_output ev d p c b) \<noteq> 0"
      and "list_all (\<lambda>k. k < length (dfClass c))
             (map argmax_row (rows (model_output ev d p c b)))"
      and "length (sLabel (generator_of ev d p c b)) = nSamples (generator_of ev d p c b)"
    using that by (simp add: predict_generator_Inr accuracy_Inr nrows_def)
  show ?thesis using a b c d by blast
qed

lemma ex_out:
  "model_output ex_env sImageFeatureDir sModelImageBest c b =
     \<lparr>ncols = 2, rows = [[0.9, 0.1], [0.2, 0.8]]\<rparr>"
  "model_output ex_env_three sImageFeatureDir sModelImageBest c b =
     \<lparr>ncols = 2, rows = [[0.9, 0.1], [0.2, 0.8]]\<rparr>"
  by (simp_all add: model_output_def ex_env_def ex_env_three_def ex_model_def)

theorem predict_generator_count_guard_witness:
  "predict_generator ex_env_three sImageFeatureDir sModelImageBest ex_classes 16 =
     ([InferGenerator sModelImageBest sImageFeatureDir],
      Inl (ValueError ''Unexpected number of predictions'')) \<and>
   length [0::nat, 1] = nSamples (generator_of ex_env sImageFeatureDir sModelImageBest ex_classes 16) \<and>
   nrows \<lparr>ncols = 2, rows = [[0.9, 0.1], [0.2, 0.8]]\<rparr> =
     nSamples (generator_of ex_env sImageFeatureDir sModelImageBest ex_classes 16) \<and>
   length [''A'', ''B''] =
     nSamples (generator_of ex_env sImageFeatureDir sModelImageBest ex_classes 16) \<and>
   snd (predict_generator ex_env sImageFeatureDir sModelImageBest ex_classes 16) =
     Inr (1, [0, 1], \<lparr>ncols = 2, rows = [[0.9, 0.1], [0.2, 0.8]]\<rparr>, [''A'', ''B''])"
  using predict_generator_count_guard
          [of ex_env_three sImageFeatureDir sModelImageBest ex_classes 16]
        predict_generator_count_guard
          [of ex_env sImageFeatureDir sModelImageBest ex_classes 16
              "[InferGenerator sModelImageBest sImageFeatureDir]" 1 "[0, 1]"
              "\<lparr>ncols = 2, rows = [[0.9, 0.1], [0.2, 0.8]]\<rparr>" "[''A'', ''B'']"]
  by (simp add: ex_gen ex_out ex_pg nrows_def ex_generator_def)

text \<open>
  Counterexample to C6 as stated: with as many rows as samples \<open>predict_generator\<close> can
  still raise instead of returning. Here the model predicts class 1 for both samples
  and the class table has a row for class 0 only.
\<close>

theorem predict_generator_raises_with_equal_counts:
  "nrows (model_output ex_env sOflowFeatureDir sModelOflowLast ex_classes1 16) =
     nSamples (generator_of ex_env sOflowFeatureDir sModelOflowLast ex_classes1 16) \<and>
   predict_generator ex_env sOflowFeatureDir sModelOflowLast ex_classes1 16 =
     ([InferGenerator sModelOflowLast sOflowFeatureDir], Inl KeyError)"
  by (simp add: predict_generator_def Let_def ex_env_def ex_paths ex_model_def ex_generator_def
      ex_classes1_def generator_of_def model_output_def nrows_def argmax_axis1_def
      argmax_row_def accuracy_def loc_sClass_def bind_pair_Inr bind_pair_Inl emit_def lift_def
      raise_def)

lemma main_labels_differ:
  assumes "predict_generator ev sImageFeatureDir sModelImageBest (cls ev) 16 = (l1, Inr (a1, p1, P1, L1))"
    and "predict_generator ev sImageFeatureDir sModelImageLast (cls ev) 16 = (l2, Inr (a2, p2, P2, L2))"
    and "predict_generator ev sOflowFeatureDir sModelOflowBest (cls ev) 16 = (l3, Inr (a3, p3, P3, L3))"
    and "predict_generator ev sOflowFeatureDir sModelOflowLast (cls ev) 16 = (l4, Inr (a4, p4, P4, L4))"
    and "L1 \<noteq> L3"
  shows "main ev =
     (l1 @ PrintAcc ''Image best model accuracy'' (a1 * 100) #
      l2 @ PrintAcc ''Image last model accuracy'' (a2 * 100) #
      l3 @ PrintAcc ''Optical flow best model accuracy'' (a3 * 100) #
      l4 @ [PrintAcc ''Optical flow last model accuracy'' (a4 * 100)],
      Inl (ValueError ''The rgb and flwo labels do not match''))"
  unfolding main_def Let_def cls_def[symmetric]
  by (simp add: assms bind_pair_Inr bind_pair_Inl emit_def raise_def)

lemma predict_generator_no_print:
  assumes "predict_generator ev d p c b = (l, r)"
  shows "PrintAcc s v \<notin> set l"
proof
  assume "PrintAcc s v \<in> set l"
  with assms have "PrintAcc s v \<in> set (fst (predict_generator ev d p c b))" by simp
  then have "PrintAcc s v = InferGenerator p d" by (rule predict_generator_log)
  then show False by simp
qed

lemma main_fused_print:
  assumes "PrintAcc s v \<in> set (fst (main ev))"
    and "s = ''Last image & last optical flow model combined accuracy'' \<or>
         s = ''Combined 2 optical flow model accuracy'' \<or>
         s = ''Combined 4-model accuracy''"
  shows "sLabel (generator_of ev sImageFeatureDir sModelImageBest (cls ev) 16) =
         sLabel (generator_of ev sOflowFeatureDir sModelOflowBest (cls ev) 16)"
proof -
  obtain l1 r1 where 1: "predict_generator ev sImageFeatureDir sModelImageBest (cls ev) 16 = (l1, r1)"
    by fastforce
  obtain l2 r2 where 2: "predict_generator ev sImageFeatureDir sModelImageLast (cls ev) 16 = (l2, r2)"
    by fastforce
  obtain l3 r3 where 3: "predict_generator ev sOflowFeatureDir sModelOflowBest (cls ev) 16 = (l3, r3)"
    by fastforce
  obtain l4 r4 where 4: "predict_generator ev sOflowFeatureDir sModelOflowLast (cls ev) 16 = (l4, r4)"
    by fastforce
  have n1: "PrintAcc s v \<notin> set l1" using 1 by (rule predict_generator_no_print)
  have n2: "PrintAcc s v \<notin> set l2" using 2 by (rule predict_generator_no_print)
  have n3: "PrintAcc s v \<notin> set l3" using 3 by (rule predict_generator_no_print)
  have n4: "PrintAcc s v \<notin> set l4" using 4 by (rule predict_generator_no_print)
  have early: "PrintAcc s v \<notin>
      set (l1 @ PrintAcc ''Image best model accuracy'' x1 #
           l2 @ PrintAcc ''Image last model accuracy'' x2 #
           l3 @ PrintAcc ''Optical flow best model accuracy'' x3 #
           l4 @ [PrintAcc ''Optical flow last model accuracy'' x4])" for x1 x2 x3 x4
    using n1 n2 n3 n4 assms(2) by auto
  show ?thesis
  proof (cases r1)
    case (Inl e)
    then have "fst (main ev) = l1"
      unfolding main_def Let_def cls_def[symmetric] by (simp add: 1 bind_pair_Inl)
    with assms(1) n1 show ?thesis by simp
  next
    case r1: (Inr x1)
    obtain a1 p1 P1 L1 where x1: "x1 = (a1, p1, P1, L1)" by (cases x1) auto
    show ?thesis
    proof (cases r2)
      case (Inl e)
      then have "fst (main ev) = l1 @ PrintAcc ''Image best model accuracy'' (a1 * 100) # l2"
        unfolding main_def Let_def cls_def[symmetric]
        by (simp add: 1 2 r1 x1 bind_pair_Inl bind_pair_Inr emit_def)
      with assms n1 n2 show ?thesis by auto
    next
      case r2: (Inr x2)
      obtain a2 p2 P2 L2 where x2: "x2 = (a2, p2, P2, L2)" by (cases x2) auto
      show ?thesis
      proof (cases r3)
        case (Inl e)
        then have "fst (main ev) =
            l1 @ PrintAcc ''Image best model accuracy'' (a1 * 100) #
            l2 @ PrintAcc ''Image last model accuracy'' (a2 * 100) # l3"
          unfolding main_def Let_def cls_def[symmetric]
          by (simp add: 1 2 3 r1 x1 r2 x2 bind_pair_Inl bind_pair_Inr emit_def)
        with assms n1 n2 n3 show ?thesis by auto
      next
        case r3: (Inr x3)
        obtain a3 p3 P3 L3 where x3: "x3 = (a3, p3, P3, L3)" by (cases x3) auto
        show ?thesis
        proof (cases r4)
          case (Inl e)
          then have "fst (main ev) =
              l1 @ PrintAcc ''Image best model accuracy'' (a1 * 100) #
              l2 @ PrintAcc ''Image last model accuracy'' (a2 * 100) #
              l3 @ PrintAcc ''Optical flow best model accuracy'' (a3 * 100) # l4"
            unfolding main_def Let_def cls_def[symmetric]
            by (simp add: 1 2 3 4 r1 x1 r2 x2 r3 x3 bind_pair_Inl bind_pair_Inr emit_def)
          with assms n1 n2 n3 n4 show ?thesis by auto
        next
          case r4: (Inr x4)
          obtain a4 p4 P4 L4 where x4: "x4 = (a4, p4, P4, L4)" by (cases x4) auto
          show ?thesis
          proof (cases "L1 = L3")
            case True
            from 1 r1 x1 have "L1 = sLabel (generator_of ev sImageFeatureDir sModelImageBest (cls ev) 16)"
              by (simp add: predict_generator_Inr)
            moreover from 3 r3 x3 have "L3 = sLabel (generator_of ev sOflowFeatureDir sModelOflowBest (cls ev) 16)"
              by (simp add: predict_generator_Inr)
            ultimately show ?thesis using True by simp
          next
            case False
            have "fst (main ev) =
               l1 @ PrintAcc ''Image best model accuracy'' (a1 * 100) #
               l2 @ PrintAcc ''Image last model accuracy'' (a2 * 100) #
               l3 @ PrintAcc ''Optical flow best model accuracy'' (a3 * 100) #
               l4 @ [PrintAcc ''Optical flow last model accuracy'' (a4 * 100)]"
              using main_labels_differ[OF 1[unfolded r1 x1] 2[unfolded r2 x2] 3[unfolded r3 x3]
                  4[unfolded r4 x4] False]
              by simp
            with assms(1) early[of "a1 * 100" "a2 * 100" "a3 * 100" "a4 * 100"]
            show ?thesis by simp
          qed
        qed
      qed
    qed
  qed
qed

text \<open>
  C4. When the four models have been evaluated and the label list of the image stream
  differs from that of the optical-flow stream, main raises its error; the log then
  holds the four per-model accuracies and no fused accuracy. A fused accuracy is printed,
  and main returns, only when the two label lists are equal.
\<close>

theorem main_label_guard:
  "(predict_generator ev sImageFeatureDir sModelImageBest (cls ev) 16 = (l1, Inr (a1, p1, P1, L1)) \<and>
    predict_generator ev sImageFeatureDir sModelImageLast (cls ev) 16 = (l2, Inr (a2, p2, P2, L2)) \<and>
    predict_generator ev sOflowFeatureDir sModelOflowBest (cls ev) 16 = (l3, Inr (a3, p3, P3, L3)) \<and>
    predict_generator ev sOflowFeatureDir sModelOflowLast (cls ev) 16 = (l4, Inr (a4, p4, P4, L4)) \<and>
    L1 \<noteq> L3 \<longrightarrow>
      main ev =
        (l1 @ PrintAcc ''Image best model accuracy'' (a1 * 100) #
         l2 @ PrintAcc ''Image last model accuracy'' (a2 * 100) #
         l3 @ PrintAcc ''Optical flow best model accuracy'' (a3 * 100) #
         l4 @ [PrintAcc ''Optical flow last model accuracy'' (a4 * 100)],
         Inl (ValueError ''The rgb and flwo labels do not match''))) \<and>
   (PrintAcc s v \<in> set (fst (main ev)) \<and>
    (s = ''Last image & last optical flow model combined accuracy'' \<or>
     s = ''Combined 2 optical flow model accuracy'' \<or>
     s = ''Combined 4-model accuracy'') \<longrightarrow>
      sLabel (generator_of ev sImageFeatureDir sModelImageBest (cls ev) 16) =
      sLabel (generator_of ev sOflowFeatureDir sModelOflowBest (cls ev) 16)) \<and>
   (main ev = (l, Inr (f1, f2, f3)) \<longrightarrow>
      sLabel (generator_of ev sImageFeatureDir sModelImageBest (cls ev) 16) =
      sLabel (generator_of ev sOflowFeatureDir sModelOflowBest (cls ev) 16))"
  using main_labels_differ[of ev l1 a1 p1 P1 L1 l2 a2 p2 P2 L2 l3 a3 p3 P3 L3 l4 a4 p4 P4 L4]
    main_fused_print[of s v ev] main_Inr(6)[of ev l f1 f2 f3]
  by blast

lemma ex_dirs: "sImageFeatureDir \<noteq> sOflowFeatureDir" "sOflowFeatureDir \<noteq> sImageFeatureDir"
  by (simp_all add: sImageFeatureDir_def sOflowFeatureDir_def)

lemma ex_cls: "cls ex_env = ex_classes" "cls ex_env_mismatch = ex_classes"
  by (simp_all add: cls_def ex_env_def ex_env_mismatch_def)

lemma ex_pg_mismatch:
  "predict_generator ex_env_mismatch sImageFeatureDir sModelImageBest ex_classes 16 =
     ([InferGenerator sModelImageBest sImageFeatureDir],
      Inr (1, [0, 1], \<lparr>ncols = 2, rows = [[0.9, 0.1], [0.2, 0.8]]\<rparr>, [''A'', ''B'']))"
  "predict_generator ex_env_mismatch sImageFeatureDir sModelImageLast ex_classes 16 =
     ([InferGenerator sModelImageLast sImageFeatureDir],
      Inr (1/2, [0, 0], \<lparr>ncols = 2, rows = [[0.6, 0.4], [0.7, 0.3]]\<rparr>, [''A'', ''B'']))"
  "predict_generator ex_env_mismatch sOflowFeatureDir sModelOflowBest ex_classes 16 =
     ([InferGenerator sModelOflowBest sOflowFeatureDir],
      Inr (0, [0, 1], \<lparr>ncols = 2, rows = [[0.8, 0.2], [0.4, 0.6]]\<rparr>, [''B'', ''A'']))"
  "predict_generator ex_env_mismatch sOflowFeatureDir sModelOflowLast ex_classes 16 =
     ([InferGenerator sModelOflowLast sOflowFeatureDir],
      Inr (1/2, [1, 1], \<lparr>ncols = 2, rows = [[0.3, 0.7], [0.1, 0.9]]\<rparr>, [''B'', ''A'']))"
  by (simp_all add: predict_generator_Inr generator_of_def model_output_def ex_env_def
      ex_env_mismatch_def ex_paths ex_dirs
      ex_model_def ex_generator_def ex_classes_def nrows_def argmax_row_def accuracy_Inr np_mean_def)

theorem main_label_guard_witness:
  "main ex_env_mismatch =
     ([InferGenerator sModelImageBest sImageFeatureDir, PrintAcc ''Image best model accuracy'' 100,
       InferGenerator sModelImageLast sImageFeatureDir, PrintAcc ''Image last model accuracy'' 50,
       InferGenerator sModelOflowBest sOflowFeatureDir, PrintAcc ''Optical flow best model accuracy'' 0,
       InferGenerator sModelOflowLast sOflowFeatureDir, PrintAcc ''Optical flow last model accuracy'' 50],
      Inl (ValueError ''The rgb and flwo labels do not match'')) \<and>
   PrintAcc ''Combined 4-model accuracy'' 100 \<in> set (fst (main ex_env)) \<and>
   sLabel (generator_of ex_env sImageFeatureDir sModelImageBest (cls ex_env) 16) =
   sLabel (generator_of ex_env sOflowFeatureDir sModelOflowBest (cls ex_env) 16)"
  using main_label_guard[of ex_env_mismatch
      "[InferGenerator sModelImageBest sImageFeatureDir]" 1 "[0, 1]"
      "\<lparr>ncols = 2, rows = [[0.9, 0.1], [0.2, 0.8]]\<rparr>" "[''A'', ''B'']"
      "[InferGenerator sModelImageLast sImageFeatureDir]" "1/2" "[0, 0]"
      "\<lparr>ncols = 2, rows = [[0.6, 0.4], [0.7, 0.3]]\<rparr>" "[''A'', ''B'']"
      "[InferGenerator sModelOflowBest sOflowFeatureDir]" 0 "[0, 1]"
      "\<lparr>ncols = 2, rows = [[0.8, 0.2], [0.4, 0.6]]\<rparr>" "[''B'', ''A'']"
      "[InferGenerator sModelOflowLast sOflowFeatureDir]" "1/2" "[1, 1]"
      "\<lparr>ncols = 2, rows = [[0.3, 0.7], [0.1, 0.9]]\<rparr>" "[''B'', ''A'']"]
    main_label_guard[where ev = ex_env and s = "''Combined 4-model accuracy''" and v = 100
      and l = "fst (main ex_env)"
      and ?f1.0 = "ex_fusion [[0.9, 1.1], [0.8, 1.2]] [1, 1] (1/2)"
      and ?f2.0 = "ex_fusion [[1.1, 0.9], [0.5, 1.5]] [0, 1] 1"
      and ?f3.0 = "ex_fusion [[2.6, 1.4], [1.4, 2.6]] [0, 1] 1"]
  by (simp add: ex_cls ex_pg_mismatch ex_main)










text \<open>The recipe's sum fixes the combined array: two arrays that are both the elementwise
  sum of the same arrays are equal. For arrays of the shape of the sum the entries are
  added one by one.\<close>

lemma spec_common_length_unique:
  assumes "spec_common_length n ds" "spec_common_length n' ds"
  shows "n = n'"
  using assms by (auto simp: spec_common_length_def list_all_iff)

lemma spec_elementwise_sum_unique:
  assumes "spec_elementwise_sum S As" "spec_elementwise_sum S' As"
  shows "S = S'"
proof -
  from assms have n: "length (rows S) = length (rows S')" and c: "ncols S = ncols S'"
    by (auto simp: spec_elementwise_sum_def intro: spec_common_length_unique)
  have "rows S ! i = rows S' ! i" if i: "i < length (rows S)" for i
  proof (rule nth_equalityI)
    from assms i n c have l: "length (rows S ! i) = ncols S" "length (rows S' ! i) = ncols S"
      by (simp_all add: spec_elementwise_sum_def list_all_length)
    then show "length (rows S ! i) = length (rows S' ! i)" by simp
    fix j assume "j < length (rows S ! i)"
    with l have j: "j < ncols S" by simp
    with assms i n c show "rows S ! i ! j = rows S' ! i ! j"
      by (simp add: spec_elementwise_sum_def)
  qed
  with n have "rows S = rows S'" by (intro nth_equalityI) simp_all
  with c show ?thesis by simp
qed

lemma spec_elementwise_sum_same_shape:
  assumes "spec_elementwise_sum S As"
    and "list_all (\<lambda>A. length (rows A) = length (rows S) \<and> ncols A = ncols S) As"
    and "i < length (rows S)" "j < ncols S"
  shows "rows S ! i ! j = sum_list (map (\<lambda>A. rows A ! i ! j) As)"
proof -
  have h: "rows A ! (if length (rows A) = 1 then 0 else i) ! (if ncols A = 1 then 0 else j) =
        rows A ! i ! j" if "A \<in> set As" for A
    using that assms(2,3,4) by (auto simp: list_all_iff)
  have m: "map (\<lambda>A. rows A ! (if length (rows A) = 1 then 0 else i)
                              ! (if ncols A = 1 then 0 else j)) As =
             map (\<lambda>A. rows A ! i ! j) As"
    by (rule map_cong[OF refl]) (rule h)
  have e: "rows S ! i ! j =
      sum_list (map (\<lambda>A. rows A ! (if length (rows A) = 1 then 0 else i)
                              ! (if ncols A = 1 then 0 else j)) As)"
    using assms(1,3,4) unfolding spec_elementwise_sum_def by blast
  show ?thesis by (simp only: e m)
qed











lemma fuse_plain:
  assumes "fuse S L c = Inr f"
  shows "arPred f = map argmax_row (rows S)" and "accuracy L c (map argmax_row (rows S)) = Inr (fAcc f)"
proof -
  from assms have "arPred f = map argmax_row (rows (softmax S))"
    and a: "accuracy L c (arPred f) = Inr (fAcc f)"
    using fuse_Inr[THEN iffD1] by blast+
  then show "arPred f = map argmax_row (rows S)"
    by (simp add: softmax_def argmax_row_softmax)
  with a show "accuracy L c (map argmax_row (rows S)) = Inr (fAcc f)" by simp
qed

lemma accuracy_table: "dfClass c = dfClass c' \<Longrightarrow> accuracy L c pr = accuracy L c' pr"
  by (simp add: accuracy_def loc_sClass_def)

lemma fuse_table:
  assumes "dfClass c = dfClass c'"
  shows "fuse S L c = fuse S L c'"
proof -
  have h: "accuracy L c = accuracy L c'" by (rule ext) (rule accuracy_table[OF assms])
  show ?thesis unfolding fuse_def h by (rule refl)
qed

text \<open>
  C7, as amended. Two runs on the same score arrays produce the same prediction vectors;
  when the class table and the ground-truth labels are the same as well, they produce
  the same accuracies. This holds for the per-model step of \<open>predict_generator\<close>
  whatever the directories, model files and batch sizes of the two runs are, and for the
  three ensembles of main.
\<close>

theorem same_scores_same_predictions:
  "(predict_generator ev d p c b = (l, Inr (a, pr, P, L)) \<and>
    predict_generator ev' d' p' c' b' = (l', Inr (a', pr', P', L')) \<and> P = P' \<longrightarrow>
      pr = pr' \<and> (dfClass c = dfClass c' \<and> L = L' \<longrightarrow> a = a')) \<and>
   (main ev = (m, Inr (f1, f2, f3)) \<and> main ev' = (m', Inr (g1, g2, g3)) \<and>
    model_output ev sImageFeatureDir sModelImageBest (cls ev) 16 =
      model_output ev' sImageFeatureDir sModelImageBest (cls ev') 16 \<and>
    model_output ev sImageFeatureDir sModelImageLast (cls ev) 16 =
      model_output ev' sImageFeatureDir sModelImageLast (cls ev') 16 \<and>
    model_output ev sOflowFeatureDir sModelOflowBest (cls ev) 16 =
      model_output ev' sOflowFeatureDir sModelOflowBest (cls ev') 16 \<and>
    model_output ev sOflowFeatureDir sModelOflowLast (cls ev) 16 =
      model_output ev' sOflowFeatureDir sModelOflowLast (cls ev') 16 \<longrightarrow>
      arPred f1 = arPred g1 \<and> arPred f2 = arPred g2 \<and> arPred f3 = arPred g3 \<and>
      (dfClass (cls ev) = dfClass (cls ev') \<and>
       sLabel (generator_of ev sImageFeatureDir sModelImageBest (cls ev) 16) =
       sLabel (generator_of ev' sImageFeatureDir sModelImageBest (cls ev') 16) \<longrightarrow>
         f1 = g1 \<and> f2 = g2 \<and> f3 = g3))"
proof -
  have A: "pr = pr' \<and> (dfClass c = dfClass c' \<and> L = L' \<longrightarrow> a = a')"
    if 1: "predict_generator ev d p c b = (l, Inr (a, pr, P, L))"
      and 2: "predict_generator ev' d' p' c' b' = (l', Inr (a', pr', P', L'))" and "P = P'"
  proof -
    from 1 have p1: "pr = map argmax_row (rows P)" and a1: "accuracy L c pr = Inr a"
      using predict_generator_Inr[THEN iffD1] by blast+
    from 2 have p2: "pr' = map argmax_row (rows P')" and a2: "accuracy L' c' pr' = Inr a'"
      using predict_generator_Inr[THEN iffD1] by blast+
    from p1 p2 \<open>P = P'\<close> have "pr = pr'" by simp
    moreover have "a = a'" if "dfClass c = dfClass c'" "L = L'"
      using a1 a2 \<open>pr = pr'\<close> that accuracy_table[of c c' L pr] by simp
    ultimately show ?thesis by simp
  qed
  have B: "arPred f1 = arPred g1 \<and> arPred f2 = arPred g2 \<and> arPred f3 = arPred g3 \<and>
      (dfClass (cls ev) = dfClass (cls ev') \<and>
       sLabel (generator_of ev sImageFeatureDir sModelImageBest (cls ev) 16) =
       sLabel (generator_of ev' sImageFeatureDir sModelImageBest (cls ev') 16) \<longrightarrow>
         f1 = g1 \<and> f2 = g2 \<and> f3 = g3)"
    if 1: "main ev = (m, Inr (f1, f2, f3))" and 2: "main ev' = (m', Inr (g1, g2, g3))"
      and ib: "model_output ev sImageFeatureDir sModelImageBest (cls ev) 16 =
        model_output ev' sImageFeatureDir sModelImageBest (cls ev') 16"
      and il: "model_output ev sImageFeatureDir sModelImageLast (cls ev) 16 =
        model_output ev' sImageFeatureDir sModelImageLast (cls ev') 16"
      and ob: "model_output ev sOflowFeatureDir sModelOflowBest (cls ev) 16 =
        model_output ev' sOflowFeatureDir sModelOflowBest (cls ev') 16"
      and ol: "model_output ev sOflowFeatureDir sModelOflowLast (cls ev) 16 =
        model_output ev' sOflowFeatureDir sModelOflowLast (cls ev') 16"
  proof -
    note r = main_Inr[OF 1] and r' = main_Inr[OF 2]
    have s1: "arSoftmax f1 = arSoftmax g1" using r(7) r'(7) il ol by simp
    have s2: "arSoftmax f2 = arSoftmax g2" using r(9) r'(9) ob ol by simp
    have s3: "arSoftmax f3 = arSoftmax g3" using r(11) r'(11) ib il ob ol by auto
    have p1: "arPred f1 = arPred g1" using fuse_plain(1)[OF r(8)] fuse_plain(1)[OF r'(8)] s1 by simp
    have p2: "arPred f2 = arPred g2" using fuse_plain(1)[OF r(10)] fuse_plain(1)[OF r'(10)] s2 by simp
    have p3: "arPred f3 = arPred g3" using fuse_plain(1)[OF r(12)] fuse_plain(1)[OF r'(12)] s3 by simp
    have "f1 = g1 \<and> f2 = g2 \<and> f3 = g3"
      if t: "dfClass (cls ev) = dfClass (cls ev')"
        and L: "sLabel (generator_of ev sImageFeatureDir sModelImageBest (cls ev) 16) =
                sLabel (generator_of ev' sImageFeatureDir sModelImageBest (cls ev') 16)"
    proof -
      have "Inr f1 = (Inr g1 :: error + fusion)"
        using r(8)[unfolded s1 L fuse_table[OF t]] r'(8) by simp
      moreover have "Inr f2 = (Inr g2 :: error + fusion)"
        using r(10)[unfolded s2 L fuse_table[OF t]] r'(10) by simp
      moreover have "Inr f3 = (Inr g3 :: error + fusion)"
        using r(12)[unfolded s3 L fuse_table[OF t]] r'(12) by simp
      ultimately show ?thesis by simp
    qed
    with p1 p2 p3 show ?thesis by simp
  qed
  show ?thesis
  proof (intro conjI)
    show "predict_generator ev d p c b = (l, Inr (a, pr, P, L)) \<and>
      predict_generator ev' d' p' c' b' = (l', Inr (a', pr', P', L')) \<and> P = P' \<longrightarrow>
        pr = pr' \<and> (dfClass c = dfClass c' \<and> L = L' \<longrightarrow> a = a')"
      by (intro impI, elim conjE, rule A)
  next
    show "main ev = (m, Inr (f1, f2, f3)) \<and> main ev' = (m', Inr (g1, g2, g3)) \<and>
      model_output ev sImageFeatureDir sModelImageBest (cls ev) 16 =
        model_output ev' sImageFeatureDir sModelImageBest (cls ev') 16 \<and>
      model_output ev sImageFeatureDir sModelImageLast (cls ev) 16 =
        model_output ev' sImageFeatureDir sModelImageLast (cls ev') 16 \<and>
      model_output ev sOflowFeatureDir sModelOflowBest (cls ev) 16 =
        model_output ev' sOflowFeatureDir sModelOflowBest (cls ev') 16 \<and>
      model_output ev sOflowFeatureDir sModelOflowLast (cls ev) 16 =
        model_output ev' sOflowFeatureDir sModelOflowLast (cls ev') 16 \<longrightarrow>
        arPred f1 = arPred g1 \<and> arPred f2 = arPred g2 \<and> arPred f3 = arPred g3 \<and>
        (dfClass (cls ev) = dfClass (cls ev') \<and>
         sLabel (generator_of ev sImageFeatureDir sModelImageBest (cls ev) 16) =
         sLabel (generator_of ev' sImageFeatureDir sModelImageBest (cls ev') 16) \<longrightarrow>
           f1 = g1 \<and> f2 = g2 \<and> f3 = g3)"
      by (intro impI, elim conjE, rule B)
  qed
qed

lemma ex_pg_other:
  "predict_generator ex_env_other sImageFeatureDir sModelImageBest ex_classes b =
     ([InferGenerator sModelImageBest sImageFeatureDir],
      Inr (1, [0, 1], \<lparr>ncols = 2, rows = [[0.9, 0.1], [0.2, 0.8]]\<rparr>, [''A'', ''B'']))"
  "predict_generator ex_env_other sImageFeatureDir sModelImageLast ex_classes b =
     ([InferGenerator sModelImageLast sImageFeatureDir],
      Inr (1/2, [0, 0], \<lparr>ncols = 2, rows = [[0.6, 0.4], [0.7, 0.3]]\<rparr>, [''A'', ''B'']))"
  "predict_generator ex_env_other sOflowFeatureDir sModelOflowBest ex_classes b =
     ([InferGenerator sModelOflowBest sOflowFeatureDir],
      Inr (1, [0, 1], \<lparr>ncols = 2, rows = [[0.8, 0.2], [0.4, 0.6]]\<rparr>, [''A'', ''B'']))"
  "predict_generator ex_env_other sOflowFeatureDir sModelOflowLast ex_classes b =
     ([InferGenerator sModelOflowLast sOflowFeatureDir],
      Inr (1/2, [1, 1], \<lparr>ncols = 2, rows = [[0.3, 0.7], [0.1, 0.9]]\<rparr>, [''A'', ''B'']))"
  by (simp_all add: predict_generator_Inr generator_of_def model_output_def ex_env_def
      ex_env_other_def ex_paths
      ex_model_def ex_generator_def ex_classes_def nrows_def argmax_row_def accuracy_Inr np_mean_def)

lemma ex_main_other: "main ex_env_other = main ex_env"
proof -
  have c: "new_VideoClasses ex_env_other sClassFile = ex_classes"
    by (simp add: ex_env_def ex_env_other_def)
  show ?thesis
    unfolding ex_main unfolding main_def Let_def c
    by (simp only: ex_pg_other) (simp add: ex_eval ex_fusion_def ex_classes_def)
qed

lemma ex_other:
  "cls ex_env_other = ex_classes"
  "generator_of ex_env_other d p c b = ex_generator"
  "model_output ex_env_other d p c b = model_output ex_env d p c b"
  by (simp_all add: cls_def generator_of_def model_output_def ex_env_def ex_env_other_def
       ex_model_def)

theorem same_scores_same_predictions_witness:
  "predict_generator ex_env sImageFeatureDir sModelImageBest ex_classes 16 =
     ([InferGenerator sModelImageBest sImageFeatureDir],
      Inr (1, [0, 1], \<lparr>ncols = 2, rows = [[0.9, 0.1], [0.2, 0.8]]\<rparr>, [''A'', ''B''])) \<and>
   predict_generator ex_env_other sImageFeatureDir sModelImageBest ex_classes 32 =
     ([InferGenerator sModelImageBest sImageFeatureDir],
      Inr (1, [0, 1], \<lparr>ncols = 2, rows = [[0.9, 0.1], [0.2, 0.8]]\<rparr>, [''A'', ''B''])) \<and>
   snd (main ex_env_other) =
     Inr (ex_fusion [[0.9, 1.1], [0.8, 1.2]] [1, 1] (1/2),
          ex_fusion [[1.1, 0.9], [0.5, 1.5]] [0, 1] 1,
          ex_fusion [[2.6, 1.4], [1.4, 2.6]] [0, 1] 1)"
  using same_scores_same_predictions
      [of ex_env sImageFeatureDir sModelImageBest ex_classes 16
          "[InferGenerator sModelImageBest sImageFeatureDir]" 1 "[0, 1]"
          "\<lparr>ncols = 2, rows = [[0.9, 0.1], [0.2, 0.8]]\<rparr>" "[''A'', ''B'']"
          ex_env_other sImageFeatureDir sModelImageBest ex_classes 32
          "[InferGenerator sModelImageBest sImageFeatureDir]" 1 "[0, 1]"
          "\<lparr>ncols = 2, rows = [[0.9, 0.1], [0.2, 0.8]]\<rparr>" "[''A'', ''B'']"
          "fst (main ex_env)"
          "ex_fusion [[0.9, 1.1], [0.8, 1.2]] [1, 1] (1/2)"
          "ex_fusion [[1.1, 0.9], [0.5, 1.5]] [0, 1] 1"
          "ex_fusion [[2.6, 1.4], [1.4, 2.6]] [0, 1] 1"
          "fst (main ex_env)"
          "ex_fusion [[0.9, 1.1], [0.8, 1.2]] [1, 1] (1/2)"
          "ex_fusion [[1.1, 0.9], [0.5, 1.5]] [0, 1] 1"
          "ex_fusion [[2.6, 1.4], [1.4, 2.6]] [0, 1] 1"]
  by (simp add: ex_pg ex_pg_other ex_main_other ex_main ex_other ex_cls ex_gen)

text \<open>
  Counterexample to C7 as stated: with the same score array and the same class table,
  the accuracy still depends on the ground-truth labels of the feature directory.
\<close>

theorem same_scores_different_accuracy:
  "predict_generator ex_env sOflowFeatureDir sModelOflowBest ex_classes 16 =
     ([InferGenerator sModelOflowBest sOflowFeatureDir],
      Inr (1, [0, 1], \<lparr>ncols = 2, rows = [[0.8, 0.2], [0.4, 0.6]]\<rparr>, [''A'', ''B''])) \<and>
   predict_generator ex_env_mismatch sOflowFeatureDir sModelOflowBest ex_classes 16 =
     ([InferGenerator sModelOflowBest sOflowFeatureDir],
      Inr (0, [0, 1], \<lparr>ncols = 2, rows = [[0.8, 0.2], [0.4, 0.6]]\<rparr>, [''B'', ''A'']))"
  by (simp add: ex_pg ex_pg_mismatch)

lemma argsort_is_argsort: "is_argsort (argsort xs) xs"
  by (simp add: is_argsort_def argsort_def)

lemma sorted_le_last:
  assumes "sorted xs" "x \<in> set xs"
  shows "x \<le> last (xs :: real list)"
proof -
  from assms(2) obtain i where i: "i < length xs" "xs ! i = x" by (auto simp: in_set_conv_nth)
  then have "xs \<noteq> []" by auto
  then have "last xs = xs ! (length xs - 1)" by (rule last_conv_nth)
  moreover have "xs ! i \<le> xs ! (length xs - 1)"
    using assms(1) i(1) by (intro sorted_nth_mono) auto
  ultimately show ?thesis using i(2) by simp
qed

lemma argsort_last_max:
  assumes "is_argsort p xs" "xs \<noteq> []"
  shows "last p < length xs" and "\<forall>j<length xs. xs ! j \<le> xs ! last p"
proof -
  from assms have p: "p \<noteq> []" "set p = {0..<length xs}" "sorted (map (\<lambda>i. xs ! i) p)"
    by (auto simp: is_argsort_def)
  from p(1) have "last p \<in> set p" by simp
  with p(2) show "last p < length xs" by simp
  show "\<forall>j<length xs. xs ! j \<le> xs ! last p"
  proof (intro allI impI)
    fix j assume "j < length xs"
    with p(2) have "xs ! j \<in> set (map (\<lambda>i. xs ! i) p)" by auto
    with p(3) have "xs ! j \<le> last (map (\<lambda>i. xs ! i) p)" by (rule sorted_le_last)
    then show "xs ! j \<le> xs ! last p" using p(1) by (simp add: last_map)
  qed
qed

lemma slice_from_suffix: "\<exists>k. slice_from xs s = drop k xs"
  by (auto simp: slice_from_def Let_def)

lemma last_drop_nonempty: "drop k xs \<noteq> [] \<Longrightarrow> last (drop k xs) = last xs"
  by simp

lemma hd_top_labels:
  assumes "rev (slice_from p s) \<noteq> []"
  shows "hd (rev (slice_from p s)) = last p" and "p \<noteq> []"
proof -
  obtain k where k: "slice_from p s = drop k p" using slice_from_suffix by blast
  with assms have ne: "drop k p \<noteq> []" by simp
  then show "p \<noteq> []" by auto
  show "hd (rev (slice_from p s)) = last p" using ne k by (simp add: hd_rev)
qed

lemma set_slice_from: "set (slice_from p s) \<subseteq> set p"
  using slice_from_suffix[of p s] by (auto dest: in_set_dropD)

lemma predict_shape_error:
  "drop 1 (km_input_shape m) \<noteq> map Some (nd_shape a) \<Longrightarrow>
   predict srt a m c n = ([], Inl (ValueError ''Incorrect shapes''))"
  by (simp add: predict_def raise_def)

lemma class_label_error:
  "class_label c ls i = Inl e \<Longrightarrow> e = IndexError \<or> e = KeyError"
  by (auto simp: class_label_def getitem_def class_field_def split: if_splits sum.splits)

lemma top_loop_error:
  "snd (top_loop c ls ps js) = Inl e \<Longrightarrow> e = IndexError \<or> e = KeyError"
proof (induction js)
  case Nil
  then show ?case by (simp add: ret_def)
next
  case (Cons j js)
  then show ?case
    by (auto simp: snd_bind lift_def emit_def getitem_def dest: class_label_error
        split: sum.splits if_splits)
qed

lemma predict_shape_ok:
  assumes "drop 1 (km_input_shape m) = map Some (nd_shape a)"
  shows "take 1 (fst (predict srt a m c n)) = [Infer (km_name m) (expand_dims0 a)]"
    and "snd (predict srt a m c n) = Inl e \<Longrightarrow> e = IndexError \<or> e = KeyError"
proof -
  show "take 1 (fst (predict srt a m c n)) = [Infer (km_name m) (expand_dims0 a)]"
    using assms by (simp add: predict_def Let_def fst_bind emit_def)
  show "e = IndexError \<or> e = KeyError" if "snd (predict srt a m c n) = Inl e"
    using that assms
    by (auto simp: predict_def Let_def snd_bind lift_def emit_def ret_def getitem_def
        take_indices_def
        dest: class_label_error top_loop_error split: sum.splits if_splits)
qed

lemma predict_Inr:
  assumes "predict srt a m c n = (l, Inr (k, s, p))"
  shows "drop 1 (km_input_shape m) = map Some (nd_shape a)"
    and "\<exists>probas tp. getitem (km_predict m (expand_dims0 a)) 0 = Inr probas \<and>
           take_indices probas (rev (slice_from (srt probas) (- n))) = Inr tp \<and>
           getitem (rev (slice_from (srt probas) (- n))) 0 = Inr k \<and>
           class_label c (rev (slice_from (srt probas) (- n))) 0 = Inr s \<and>
           getitem tp 0 = Inr p"
proof -
  show sh: "drop 1 (km_input_shape m) = map Some (nd_shape a)"
    using assms by (rule_tac ccontr) (simp add: predict_shape_error)
  show "\<exists>probas tp. getitem (km_predict m (expand_dims0 a)) 0 = Inr probas \<and>
           take_indices probas (rev (slice_from (srt probas) (- n))) = Inr tp \<and>
           getitem (rev (slice_from (srt probas) (- n))) 0 = Inr k \<and>
           class_label c (rev (slice_from (srt probas) (- n))) 0 = Inr s \<and>
           getitem tp 0 = Inr p"
    using assms sh unfolding predict_def Let_def
    by (auto simp: bind_eq_Inr)
qed

lemma top_loop_ok:
  assumes "\<forall>i\<in>set js. i < length ls \<and> i < length ps" "\<forall>k\<in>set ls. k < length (dfClass c)"
  shows "\<exists>l. top_loop c ls ps js = (l, Inr ()) \<and> length l = length js"
  using assms(1)
proof (induction js)
  case Nil
  then show ?case by (simp add: ret_def)
next
  case (Cons j js)
  then obtain l where l: "top_loop c ls ps js = (l, Inr ())" "length l = length js" by auto
  from Cons.prems have j: "j < length ls" "j < length ps" by auto
  with assms(2) have "ls ! j < length (dfClass c)" by auto
  then have "class_label c ls j =
      Inr (sClass (dfClass c ! (ls ! j)) @ '' '' @ sDetail (dfClass c ! (ls ! j)))"
    using j by (simp add: class_label_def getitem_def class_field_def)
  then show ?case using j l
    by (simp add: getitem_def bind_emit)
qed

text \<open>
  C9. Whatever \<open>nTop\<close> is, when \<open>predict\<close> returns a tuple its first component is the
  index of a largest entry of the probability vector the model returned, its third
  component is that largest probability, and its second component is the name of that
  class.
\<close>

theorem predict_returns_most_probable:
  assumes "predict srt a m c n = (l, Inr (k, s, p))"
    and "getitem (km_predict m (expand_dims0 a)) 0 = Inr probas"
    and "is_argsort (srt probas) probas"
  shows "k < length probas \<and> (\<forall>j<length probas. probas ! j \<le> probas ! k) \<and> p = probas ! k \<and>
         s = sClass (dfClass c ! k) @ '' '' @ sDetail (dfClass c ! k)"
proof -
  let ?ls = "rev (slice_from (srt probas) (- n))"
  from predict_Inr(2)[OF assms(1)] assms(2) obtain tp where
    tp: "take_indices probas ?ls = Inr tp" and k: "getitem ?ls 0 = Inr k"
    and s: "class_label c ?ls 0 = Inr s" and p: "getitem tp 0 = Inr p"
    by auto
  from k have ne: "?ls \<noteq> []" and k0: "k = ?ls ! 0"
    by (auto simp: getitem_def split: if_splits)
  then have "k = hd ?ls" by (simp add: hd_conv_nth)
  with hd_top_labels[OF ne] have kl: "k = last (srt probas)" and "srt probas \<noteq> []" by simp_all
  with assms(3) have "probas \<noteq> []" by (auto simp: is_argsort_def)
  from argsort_last_max[OF assms(3) this] kl
  have 1: "k < length probas" and 2: "\<forall>j<length probas. probas ! j \<le> probas ! k" by simp_all
  from tp have "tp = map (\<lambda>i. probas ! i) ?ls"
    by (auto simp: take_indices_def split: if_splits)
  with p ne k0 have 3: "p = probas ! k"
    by (auto simp: getitem_def split: if_splits)
  from s k0 ne have 4: "s = sClass (dfClass c ! k) @ '' '' @ sDetail (dfClass c ! k)"
    by (auto simp: class_label_def getitem_def class_field_def split: if_splits sum.splits)
  from 1 2 3 4 show ?thesis by simp
qed

text \<open>
  C10. Once the shape check has passed and the model has returned a probability vector,
  \<open>predict\<close> returns a tuple (no index or key is out of bounds) whenever
  \<open>1 \<le> nTop \<le>\<close> the length of the vector and the class table has a row for every class
  index; its log then holds the inference call and the \<open>nTop\<close> printed lines.
\<close>

theorem predict_indexing_in_bounds:
  assumes "drop 1 (km_input_shape m) = map Some (nd_shape a)"
    and "getitem (km_predict m (expand_dims0 a)) 0 = Inr probas"
    and "is_argsort (srt probas) probas"
    and "1 \<le> n" and "n \<le> int (length probas)"
    and "length probas \<le> length (dfClass c)"
  shows "\<exists>l k s p. predict srt a m c n = (l, Inr (k, s, p)) \<and> length l = 1 + nat n"
proof -
  let ?ls = "rev (slice_from (srt probas) (- n))"
  let ?tp = "map (\<lambda>i. probas ! i) ?ls"
  from assms(3) have perm: "set (srt probas) = {0..<length probas}"
    "length (srt probas) = length probas" by (simp_all add: is_argsort_def)
  have len: "length ?ls = nat n"
    using assms(4,5) perm(2) by (simp add: slice_from_def Let_def)
  have rng: "\<forall>k\<in>set ?ls. k < length probas"
    using set_slice_from[of "srt probas" "- n"] perm(1) by auto
  then have tp: "take_indices probas ?ls = Inr ?tp"
    by (simp add: take_indices_def list_all_iff)
  have tbl: "\<forall>k\<in>set ?ls. k < length (dfClass c)" using rng assms(6) by auto
  have "\<forall>i\<in>set [0..<nat n]. i < length ?ls \<and> i < length ?tp" using len by simp
  from top_loop_ok[OF this tbl] obtain l where
    l: "top_loop c ?ls ?tp [0..<nat n] = (l, Inr ())" "length l = nat n" by auto
  have pos: "0 < length ?ls" using len assms(4) by simp
  then have "?ls ! 0 \<in> set ?ls" by (intro nth_mem)
  with tbl have "?ls ! 0 < length (dfClass c)" by blast
  with pos have cl: "class_label c ?ls 0 =
      Inr (sClass (dfClass c ! (?ls ! 0)) @ '' '' @ sDetail (dfClass c ! (?ls ! 0)))"
    by (simp add: class_label_def getitem_def class_field_def)
  have g1: "getitem ?ls 0 = Inr (?ls ! 0)" using pos by (simp add: getitem_def)
  have g2: "getitem ?tp 0 = Inr (?tp ! 0)" using pos by (simp add: getitem_def)
  have "predict srt a m c n =
      (Infer (km_name m) (expand_dims0 a) # l,
       Inr (?ls ! 0, sClass (dfClass c ! (?ls ! 0)) @ '' '' @ sDetail (dfClass c ! (?ls ! 0)),
            ?tp ! 0))"
    unfolding predict_def Let_def using assms(1)
    by (simp add: assms(2) tp l cl g1 g2 bind_emit bind_pair_Inr ret_def)
  with l(2) show ?thesis by simp
qed

lemmas ex_predict_eval =
  predict_def Let_def expand_dims0_def getitem_def take_indices_def slice_from_def argsort_def
  class_label_def class_field_def ex_features_def ex_features_bad_def ex_net2_def ex_net3_def
  ex_classes_def ex_classes3_def ex_eval upt_rec[of 2] upt_rec[of "Suc (Suc 0)"] upt_rec[of 3]

lemma ex_predict3:
  "predict argsort ex_features ex_net3 ex_classes3 2 =
     ([Infer ''net3'' \<lparr>nd_shape = [1, 2, 3], nd_data = [1, 2, 3, 4, 5, 6]\<rparr>,
       PrintTop 1 1 ''B beta'' 70, PrintTop 2 0 ''A alpha'' 20],
      Inr (1, ''B beta'', 7 / 10))"
  by (simp add: ex_predict_eval)

lemma ex_predict2:
  "predict argsort ex_features ex_net2 ex_classes 3 =
     ([Infer ''net2'' \<lparr>nd_shape = [1, 2, 3], nd_data = [1, 2, 3, 4, 5, 6]\<rparr>,
       PrintTop 1 0 ''A alpha'' 90, PrintTop 2 1 ''B beta'' 10],
      Inl IndexError)"
  by (simp add: ex_predict_eval)

lemma ex_predict_bad:
  "predict argsort ex_features_bad ex_net3 ex_classes3 2 = ([], Inl (ValueError ''Incorrect shapes''))"
  by (simp add: ex_predict_eval)

lemma ex_net3_facts:
  "getitem (km_predict ex_net3 (expand_dims0 ex_features)) 0 = Inr [2 / 10, 7 / 10, 1 / 10]"
  "drop 1 (km_input_shape ex_net3) = map Some (nd_shape ex_features)"
  "length (dfClass ex_classes3) = 3"
  by (simp_all add: getitem_def ex_net3_def ex_features_def ex_classes3_def)

theorem predict_returns_most_probable_witness:
  "predict argsort ex_features ex_net3 ex_classes3 2 =
     ([Infer ''net3'' \<lparr>nd_shape = [1, 2, 3], nd_data = [1, 2, 3, 4, 5, 6]\<rparr>,
       PrintTop 1 1 ''B beta'' 70, PrintTop 2 0 ''A alpha'' 20],
      Inr (1, ''B beta'', 7 / 10)) \<and>
   (1::nat) < length [2 / 10, 7 / 10, 1 / (10::real)] \<and>
   [2 / 10, 7 / 10, 1 / (10::real)] ! 0 \<le> [2 / 10, 7 / 10, 1 / 10] ! 1 \<and>
   [2 / 10, 7 / 10, 1 / (10::real)] ! 2 \<le> [2 / 10, 7 / 10, 1 / 10] ! 1 \<and>
   7 / 10 = [2 / 10, 7 / 10, 1 / (10::real)] ! 1"
  using predict_returns_most_probable[OF ex_predict3 ex_net3_facts(1) argsort_is_argsort]
  by (simp add: ex_predict3)

theorem predict_indexing_in_bounds_witness:
  "snd (predict argsort ex_features ex_net3 ex_classes3 2) = Inr (1, ''B beta'', 7 / 10) \<and>
   length (fst (predict argsort ex_features ex_net3 ex_classes3 2)) = 3"
  using predict_indexing_in_bounds[of ex_net3 ex_features "[2 / 10, 7 / 10, 1 / 10]" argsort 2
      ex_classes3, OF ex_net3_facts(2) ex_net3_facts(1) argsort_is_argsort]
  by (simp add: ex_predict3 ex_net3_facts(3))

text \<open>
  C3, as amended. \<open>predict\<close> raises its shape error exactly when the model's input shape
  without the batch dimension differs from the shape of the feature array, and then
  nothing was sent to the model. When the shapes are equal the shape error is not
  raised and the first thing that happens is the inference call on the array with a
  batch dimension added.
\<close>

theorem predict_shape_guard:
  "(snd (predict srt a m c n) = Inl (ValueError ''Incorrect shapes'') \<longleftrightarrow>
      drop 1 (km_input_shape m) \<noteq> map Some (nd_shape a)) \<and>
   (drop 1 (km_input_shape m) \<noteq> map Some (nd_shape a) \<longrightarrow> fst (predict srt a m c n) = []) \<and>
   (drop 1 (km_input_shape m) = map Some (nd_shape a) \<longrightarrow>
      take 1 (fst (predict srt a m c n)) = [Infer (km_name m) (expand_dims0 a)])"
proof (cases "drop 1 (km_input_shape m) = map Some (nd_shape a)")
  case True
  from predict_shape_ok(2)[OF True, of srt c n "ValueError ''Incorrect shapes''"]
  have "snd (predict srt a m c n) \<noteq> Inl (ValueError ''Incorrect shapes'')" by auto
  with True predict_shape_ok(1)[OF True, of srt c n] show ?thesis by simp
next
  case False
  then show ?thesis by (simp add: predict_shape_error)
qed

theorem predict_shape_guard_witness:
  "predict argsort ex_features_bad ex_net3 ex_classes3 2 =
     ([], Inl (ValueError ''Incorrect shapes'')) \<and>
   take 1 (fst (predict argsort ex_features ex_net3 ex_classes3 2)) =
     [Infer ''net3'' \<lparr>nd_shape = [1, 2, 3], nd_data = [1, 2, 3, 4, 5, 6]\<rparr>] \<and>
   snd (predict argsort ex_features ex_net3 ex_classes3 2) \<noteq> Inl (ValueError ''Incorrect shapes'')"
  using predict_shape_guard[of argsort ex_features_bad ex_net3 ex_classes3 2]
    predict_shape_guard[of argsort ex_features ex_net3 ex_classes3 2]
  by (simp add: ex_predict3 ex_predict_bad)

text \<open>
  Counterexample to C3 as stated: with equal shapes \<open>predict\<close> can still raise another
  error.
  For a model with two classes and the default \<open>nTop = 3\<close> the loop over the top labels
  reads a third label that does not exist.
\<close>

theorem predict_error_with_equal_shapes:
  "drop 1 (km_input_shape ex_net2) = map Some (nd_shape ex_features) \<and>
   predict argsort ex_features ex_net2 ex_classes 3 =
     ([Infer ''net2'' \<lparr>nd_shape = [1, 2, 3], nd_data = [1, 2, 3, 4, 5, 6]\<rparr>,
       PrintTop 1 0 ''A alpha'' 90, PrintTop 2 1 ''B beta'' 10],
      Inl IndexError)"
  by (simp add: ex_predict2) (simp add: ex_net2_def ex_features_def)

end
